theory Spec2Isabelle
  imports Complex_Main
begin

section \<open>The optimisation core of the model-predictive controller (MPC.cpp)\<close>

text \<open>
  A shallow embedding of \<^verbatim>\<open>src/ros/src/mpc/src/MPC.cpp\<close>: the polynomial helpers
  \<^verbatim>\<open>polyfit\<close>, \<^verbatim>\<open>polyeval\<close>, \<^verbatim>\<open>polyeval_diff\<close>, the cost and constraint evaluator
  \<^verbatim>\<open>FG_eval::operator()\<close>, the constructor \<^verbatim>\<open>MPC::MPC\<close> and the driver \<^verbatim>\<open>MPC::Solve\<close>.

  Conventions of the embedding.
  \<^item> A \<^verbatim>\<open>double\<close> (and CppAD's \<^verbatim>\<open>AD<double>\<close>) is a \<^typ>\<open>real\<close>: all statements are about
    exact arithmetic, rounding is not modelled.
  \<^item> A vector (\<^verbatim>\<open>Eigen::VectorXd\<close>, \<^verbatim>\<open>CppAD::vector\<close>, \<^verbatim>\<open>std::vector\<close>) is a list. An index
    outside the vector is undefined behaviour in C++ (an assertion of the library in a
    debug build); here every indexed read and write is checked and yields the error
    \<open>IndexOutOfRange\<close>.
  \<^item> A failed \<^verbatim>\<open>assert\<close> is the error \<open>AssertionFailed\<close>: assertions are taken as compiled
    in (no \<^verbatim>\<open>NDEBUG\<close>).
  \<^item> Sizes and offsets (\<^verbatim>\<open>size_t\<close>) are natural numbers with the arithmetic of 64 bits
    written out: the sums, products and differences that the constructor and \<^verbatim>\<open>Solve\<close>
    compute and store in a \<^verbatim>\<open>size_t\<close>, and the loop bounds \<^verbatim>\<open>steps_ahead - 1\<close> and
    \<^verbatim>\<open>steps_ahead - 2\<close>, wrap around at \<open>2 ^ 64\<close>, see \<open>size_add\<close>, \<open>size_mul\<close> and
    \<open>size_sub\<close>. An index \<^verbatim>\<open>start + t\<close> inside a loop is the exact sum: where the sum of
    64 bits would wrap around, the exact one is outside every vector of fewer than
    \<open>2 ^ 64\<close> entries and the access is the error \<open>IndexOutOfRange\<close>.
  \<^item> Memory is not modelled: an allocation succeeds, and the contents of a vector or
    matrix that the source allocates without initialising it come from a parameter
    \<open>fresh\<close>.
\<close>

subsection \<open>Errors, checked vector access, counting loops\<close>

datatype error = AssertionFailed | IndexOutOfRange

definition ebind :: "error + 'a \<Rightarrow> ('a \<Rightarrow> error + 'b) \<Rightarrow> error + 'b" where
  "ebind m f = (case m of Inl e \<Rightarrow> Inl e | Inr a \<Rightarrow> f a)"

text \<open>\<^verbatim>\<open>v[i]\<close> as an rvalue.\<close>

definition rd :: "'a list \<Rightarrow> nat \<Rightarrow> error + 'a" where
  "rd v i = (if i < length v then Inr (v ! i) else Inl IndexOutOfRange)"

text \<open>\<^verbatim>\<open>v[i] = a\<close>.\<close>

definition wr :: "'a list \<Rightarrow> nat \<Rightarrow> 'a \<Rightarrow> error + 'a list" where
  "wr v i a = (if i < length v then Inr (v[i := a]) else Inl IndexOutOfRange)"

text \<open>\<^verbatim>\<open>v[i] += a\<close>.\<close>

definition add_to :: "real list \<Rightarrow> nat \<Rightarrow> real \<Rightarrow> error + real list" where
  "add_to v i a = ebind (rd v i) (\<lambda>old. wr v i (old + a))"

text \<open>\<^verbatim>\<open>a + b\<close>, \<^verbatim>\<open>a * b\<close> and \<^verbatim>\<open>a - b\<close> on \<^verbatim>\<open>size_t\<close>.\<close>

definition size_add :: "nat \<Rightarrow> nat \<Rightarrow> nat" where
  "size_add a b = (a + b) mod 2 ^ 64"

definition size_mul :: "nat \<Rightarrow> nat \<Rightarrow> nat" where
  "size_mul a b = (a * b) mod 2 ^ 64"

definition size_sub :: "nat \<Rightarrow> nat \<Rightarrow> nat" where
  "size_sub a b = (if b \<le> a then a - b else 2 ^ 64 - (b - a))"

text \<open>
  \<^verbatim>\<open>for (size_t t = a; t < b; t++) body\<close>, the loop body a function of the counter and of
  the variables it updates; the loop stops at the first error.
\<close>

function for_loop :: "nat \<Rightarrow> nat \<Rightarrow> (nat \<Rightarrow> 's \<Rightarrow> error + 's) \<Rightarrow> 's \<Rightarrow> error + 's" where
  "for_loop t b body s =
     (if t < b
      then (case body t s of Inl e \<Rightarrow> Inl e | Inr s' \<Rightarrow> for_loop (Suc t) b body s')
      else Inr s)"
  by pat_completeness auto
termination
  by (relation "measure (\<lambda>(t, b, body, s). b - t)") auto

declare for_loop.simps [simp del]

subsection \<open>Evaluating a polynomial and its derivative\<close>

text \<open>
  \<^verbatim>\<open>
  double polyeval(const Eigen::VectorXd coeffs, double x) {
      double result = 0.0;
      for (int i = 0; i < coeffs.size(); i++) {
          result += coeffs[i] * pow(x, i);
      }
      return result;
  }
  \<close>
  The index stays below \<^verbatim>\<open>coeffs.size()\<close>, so the reads cannot fail.
\<close>

definition polyeval :: "real list \<Rightarrow> real \<Rightarrow> real" where
  "polyeval coeffs x =
     fold (\<lambda>i result. result + coeffs ! i * x ^ i) [0..<length coeffs] 0"

text \<open>
  \<^verbatim>\<open>
  double polyeval_diff(const Eigen::VectorXd coeffs, double x) {
      double result = 0.0;
      for (int i = 1; i < coeffs.size(); i++) {
          result += i * coeffs[i] * pow(x, i-1);
      }
      return result;
  }
  \<close>
\<close>

definition polyeval_diff :: "real list \<Rightarrow> real \<Rightarrow> real" where
  "polyeval_diff coeffs x =
     fold (\<lambda>i result. result + real i * coeffs ! i * x ^ (i - 1)) [1..<length coeffs] 0"

subsection \<open>Fitting a polynomial\<close>

text \<open>
  \<^verbatim>\<open>
  Eigen::VectorXd polyfit(const Eigen::VectorXd & xvals, const Eigen::VectorXd & yvals, int order) {
      assert(xvals.size() == yvals.size());
      assert(order >= 1 && order <= xvals.size() - 1);
      Eigen::MatrixXd A(xvals.size(), order + 1);
      for (int i = 0; i < xvals.size(); i++) { A(i, 0) = 1.0; }
      for (int j = 0; j < xvals.size(); j++) {
          for (int i = 0; i < order; i++) { A(j, i + 1) = A(j, i) * xvals(j); }
      }
      auto Q = A.householderQr();
      auto result = Q.solve(yvals);
      return result;
  }
  \<close>
  A matrix is the list of its rows. \<^verbatim>\<open>Eigen::MatrixXd A(r, c)\<close> leaves the coefficients
  unspecified: the model fills them from a parameter \<open>fresh\<close>. Eigen's
  \<^verbatim>\<open>A.householderQr().solve(yvals)\<close> is a library routine and a parameter of the model.
  \<^verbatim>\<open>xvals.size()\<close> is a signed integer, so \<^verbatim>\<open>xvals.size() - 1\<close> is \<open>-1\<close> for an empty vector.
  Both loops stay inside the matrix and inside \<^verbatim>\<open>xvals\<close> once the assertions hold.
\<close>

definition MatrixXd :: "(nat \<Rightarrow> nat \<Rightarrow> real) \<Rightarrow> nat \<Rightarrow> nat \<Rightarrow> real list list" where
  "MatrixXd fresh r c = map (\<lambda>i. map (\<lambda>j. fresh i j) [0..<c]) [0..<r]"

definition set_coeff :: "real list list \<Rightarrow> nat \<Rightarrow> nat \<Rightarrow> real \<Rightarrow> real list list" where
  "set_coeff A i j a = A[i := (A ! i)[j := a]]"

definition polyfit ::
  "(real list list \<Rightarrow> real list \<Rightarrow> real list) \<Rightarrow> (nat \<Rightarrow> nat \<Rightarrow> real) \<Rightarrow>
   real list \<Rightarrow> real list \<Rightarrow> int \<Rightarrow> error + real list" where
  "polyfit householderQr_solve fresh xvals yvals order =
     (if length xvals \<noteq> length yvals then Inl AssertionFailed
      else if \<not> (order \<ge> 1 \<and> order \<le> int (length xvals) - 1) then Inl AssertionFailed
      else
        let A = MatrixXd fresh (length xvals) (nat (order + 1));
            A = fold (\<lambda>i A. set_coeff A i 0 1) [0..<length xvals] A;
            A = fold (\<lambda>j A.
                  fold (\<lambda>i A. set_coeff A j (i + 1) (A ! j ! i * xvals ! j)) [0..<nat order] A)
                  [0..<length xvals] A
        in Inr (householderQr_solve A yvals))"

subsection \<open>Parameters and the layout of the decision variables\<close>

text \<open>
  Modelled from the spec: the structures \<^verbatim>\<open>Params\<close> and \<^verbatim>\<open>Indexes\<close>, declared in \<^verbatim>\<open>MPC.h\<close>,
  which is not among the sources. The records have the members that \<^verbatim>\<open>MPC.cpp\<close> reads and
  writes, under the names it uses. As in the data model of the specification, the
  horizon \<^verbatim>\<open>steps_ahead\<close> and the seven offsets are lengths and positions in the flat
  decision vector, the other members are real scalars. The macro \<^verbatim>\<open>SPEED_UPPERBOUND\<close>
  comes from the same header: it is a parameter of every function that uses it.
\<close>

record Params =
  steps_ahead :: nat
  dt :: real
  ref_v :: real
  cte_coeff :: real
  epsi_coeff :: real
  speed_coeff :: real
  steer_coeff :: real
  consec_steer_coeff :: real
  consec_speed_coeff :: real

record Indexes =
  x_start :: nat
  y_start :: nat
  psi_start :: nat
  cte_start :: nat
  epsi_start :: nat
  delta_start :: nat
  v_start :: nat

text \<open>\<^verbatim>\<open>double Lf() { return 0.325; }\<close> and \<^verbatim>\<open>double delta_constraint() { return 25; }\<close>\<close>

definition Lf :: real where
  "Lf = 0.325"

definition delta_constraint :: real where
  "delta_constraint = 25"

text \<open>The members of the class \<^verbatim>\<open>MPC\<close>.\<close>

record MPC =
  m_params :: Params
  m_indexes :: Indexes

text \<open>
  \<^verbatim>\<open>
  MPC::MPC(const Params & params) : m_params(params) {
      m_indexes.x_start = 0;
      m_indexes.y_start = m_indexes.x_start + params.steps_ahead;
      m_indexes.psi_start = m_indexes.y_start + params.steps_ahead;
      m_indexes.cte_start = m_indexes.psi_start+ params.steps_ahead;
      m_indexes.epsi_start = m_indexes.cte_start + params.steps_ahead;
      m_indexes.delta_start = m_indexes.epsi_start + params.steps_ahead;
      m_indexes.v_start = m_indexes.delta_start + params.steps_ahead - 1;
      assert(params.ref_v < SPEED_UPPERBOUND);
  }
  \<close>
  The constructor either yields the object or fails in its assertion.
\<close>

definition MPC_MPC :: "real \<Rightarrow> Params \<Rightarrow> error + MPC" where
  "MPC_MPC SPEED_UPPERBOUND params =
     (let xs = 0;
          ys = size_add xs (steps_ahead params);
          psis = size_add ys (steps_ahead params);
          ctes = size_add psis (steps_ahead params);
          epsis = size_add ctes (steps_ahead params);
          deltas = size_add epsis (steps_ahead params);
          vs = size_sub (size_add deltas (steps_ahead params)) 1
      in if ref_v params < SPEED_UPPERBOUND
         then Inr \<lparr>m_params = params,
                   m_indexes = \<lparr>x_start = xs, y_start = ys, psi_start = psis,
                                 cte_start = ctes, epsi_start = epsis,
                                 delta_start = deltas, v_start = vs\<rparr>\<rparr>
         else Inl AssertionFailed)"

subsection \<open>The cost and the constraint residuals: \<^verbatim>\<open>FG_eval::operator()\<close>\<close>

text \<open>
  The function object holds \<^verbatim>\<open>m_coeffs\<close>, \<^verbatim>\<open>m_params\<close>, \<^verbatim>\<open>m_indexes\<close> and \<^verbatim>\<open>m_ref_v\<close>; they are
  the first four arguments of the model of \<^verbatim>\<open>operator()\<close>, which takes the vector \<^verbatim>\<open>fg\<close>
  it is given and returns it updated. The four loops of the operator have their bodies
  as separate definitions, in the order of the source.

  \<^verbatim>\<open>
  for (size_t t=0; t<m_params.steps_ahead; t++) {
      fg[0] += m_params.cte_coeff * CppAD::pow(vars[m_indexes.cte_start + t], 2);
      fg[0] += m_params.epsi_coeff * CppAD::pow(vars[m_indexes.epsi_start + t], 2);
  }
  \<close>
\<close>

definition cost_reference_step ::
  "Params \<Rightarrow> Indexes \<Rightarrow> real list \<Rightarrow> nat \<Rightarrow> real list \<Rightarrow> error + real list" where
  "cost_reference_step p ix vars t fg =
     ebind (rd vars (cte_start ix + t)) (\<lambda>c.
     ebind (add_to fg 0 (cte_coeff p * c ^ 2)) (\<lambda>fg.
     ebind (rd vars (epsi_start ix + t)) (\<lambda>e.
     add_to fg 0 (epsi_coeff p * e ^ 2))))"

text \<open>
  \<^verbatim>\<open>
  for (size_t t=0; t<m_params.steps_ahead-1; t++) {
      fg[0] += m_params.speed_coeff * CppAD::pow(vars[m_indexes.v_start + t] - m_ref_v, 2);
      fg[0] += m_params.steer_coeff * CppAD::pow(vars[m_indexes.delta_start + t], 2);
  }
  \<close>
\<close>

definition cost_actuators_step ::
  "Params \<Rightarrow> Indexes \<Rightarrow> real \<Rightarrow> real list \<Rightarrow> nat \<Rightarrow> real list \<Rightarrow> error + real list" where
  "cost_actuators_step p ix m_ref_v vars t fg =
     ebind (rd vars (v_start ix + t)) (\<lambda>v.
     ebind (add_to fg 0 (speed_coeff p * (v - m_ref_v) ^ 2)) (\<lambda>fg.
     ebind (rd vars (delta_start ix + t)) (\<lambda>d.
     add_to fg 0 (steer_coeff p * d ^ 2))))"

text \<open>
  \<^verbatim>\<open>
  for (size_t t = 0; t < m_params.steps_ahead-2; t++) {
      fg[0] += m_params.consec_steer_coeff * CppAD::pow(vars[m_indexes.delta_start + t + 1] - vars[m_indexes.delta_start + t], 2);
      fg[0] += m_params.consec_speed_coeff * CppAD::pow(vars[m_indexes.v_start + t + 1] - vars[m_indexes.v_start + t], 2);
  }
  \<close>
\<close>

definition cost_gap_step ::
  "Params \<Rightarrow> Indexes \<Rightarrow> real list \<Rightarrow> nat \<Rightarrow> real list \<Rightarrow> error + real list" where
  "cost_gap_step p ix vars t fg =
     ebind (rd vars (delta_start ix + t + 1)) (\<lambda>d1.
     ebind (rd vars (delta_start ix + t)) (\<lambda>d0.
     ebind (add_to fg 0 (consec_steer_coeff p * (d1 - d0) ^ 2)) (\<lambda>fg.
     ebind (rd vars (v_start ix + t + 1)) (\<lambda>v1.
     ebind (rd vars (v_start ix + t)) (\<lambda>v0.
     add_to fg 0 (consec_speed_coeff p * (v1 - v0) ^ 2))))))"

text \<open>
  The body of the loop \<^verbatim>\<open>for (size_t t = 1; t < m_params.steps_ahead; t++)\<close>: twelve reads
  (\<^verbatim>\<open>cte0\<close> is read and not used), the two inner loops over the coefficients for \<^verbatim>\<open>f0\<close> and
  \<^verbatim>\<open>fdiff0\<close>, and five writes:
  \<^verbatim>\<open>
  fg[1 + m_indexes.x_start + t] = x1 - (x0 + v0 * CppAD::cos(psi0) * m_params.dt);
  fg[1 + m_indexes.y_start + t] = y1 - (y0 + v0 * CppAD::sin(psi0) * m_params.dt);
  fg[1 + m_indexes.psi_start + t] = psi1 - (psi0 - v0 * delta0 / Lf() * m_params.dt);
  fg[1 + m_indexes.cte_start + t] = cte1 - (f0 - y0 + (v0 * CppAD::sin(epsi0) * m_params.dt));
  fg[1 + m_indexes.epsi_start + t] = epsi1 - (psi0 - psides0 - v0 * delta0 / Lf() * m_params.dt);
  \<close>
\<close>

definition constraints_step ::
  "real list \<Rightarrow> Params \<Rightarrow> Indexes \<Rightarrow> real list \<Rightarrow> nat \<Rightarrow> real list \<Rightarrow> error + real list" where
  "constraints_step m_coeffs p ix vars t fg =
     ebind (rd vars (x_start ix + t)) (\<lambda>x1.
     ebind (rd vars (y_start ix + t)) (\<lambda>y1.
     ebind (rd vars (psi_start ix + t)) (\<lambda>psi1.
     ebind (rd vars (cte_start ix + t)) (\<lambda>cte1.
     ebind (rd vars (epsi_start ix + t)) (\<lambda>epsi1.
     ebind (rd vars (size_sub (x_start ix + t) 1)) (\<lambda>x0.
     ebind (rd vars (size_sub (y_start ix + t) 1)) (\<lambda>y0.
     ebind (rd vars (size_sub (psi_start ix + t) 1)) (\<lambda>psi0.
     ebind (rd vars (size_sub (v_start ix + t) 1)) (\<lambda>v0.
     ebind (rd vars (size_sub (cte_start ix + t) 1)) (\<lambda>cte0.
     ebind (rd vars (size_sub (epsi_start ix + t) 1)) (\<lambda>epsi0.
     ebind (rd vars (size_sub (delta_start ix + t) 1)) (\<lambda>delta0.
     let f0 = fold (\<lambda>i f0. f0 + m_coeffs ! i * x0 ^ i) [0..<length m_coeffs] 0;
         fdiff0 = fold (\<lambda>i fdiff0. fdiff0 + real i * m_coeffs ! i * x0 ^ (i - 1))
                    [1..<length m_coeffs] 0;
         psides0 = arctan fdiff0
     in
     ebind (wr fg (1 + x_start ix + t) (x1 - (x0 + v0 * cos psi0 * dt p))) (\<lambda>fg.
     ebind (wr fg (1 + y_start ix + t) (y1 - (y0 + v0 * sin psi0 * dt p))) (\<lambda>fg.
     ebind (wr fg (1 + psi_start ix + t) (psi1 - (psi0 - v0 * delta0 / Lf * dt p))) (\<lambda>fg.
     ebind (wr fg (1 + cte_start ix + t) (cte1 - (f0 - y0 + (v0 * sin epsi0 * dt p)))) (\<lambda>fg.
     wr fg (1 + epsi_start ix + t)
        (epsi1 - (psi0 - psides0 - v0 * delta0 / Lf * dt p))))))))))))))))))"

text \<open>
  The operator: \<^verbatim>\<open>fg[0] = 0\<close>, the three cost loops, the five initial constraints
  \<^verbatim>\<open>fg[1 + m_indexes.x_start] = vars[m_indexes.x_start]\<close> and so on, and the loop of the
  other constraints.
\<close>

definition FG_eval_operator ::
  "real list \<Rightarrow> Params \<Rightarrow> Indexes \<Rightarrow> real \<Rightarrow> real list \<Rightarrow> real list \<Rightarrow> error + real list" where
  "FG_eval_operator m_coeffs p ix m_ref_v fg vars =
     ebind (wr fg 0 0) (\<lambda>fg.
     ebind (for_loop 0 (steps_ahead p) (cost_reference_step p ix vars) fg) (\<lambda>fg.
     ebind (for_loop 0 (size_sub (steps_ahead p) 1) (cost_actuators_step p ix m_ref_v vars) fg)
       (\<lambda>fg.
     ebind (for_loop 0 (size_sub (steps_ahead p) 2) (cost_gap_step p ix vars) fg) (\<lambda>fg.
     ebind (rd vars (x_start ix)) (\<lambda>a. ebind (wr fg (1 + x_start ix) a) (\<lambda>fg.
     ebind (rd vars (y_start ix)) (\<lambda>a. ebind (wr fg (1 + y_start ix) a) (\<lambda>fg.
     ebind (rd vars (psi_start ix)) (\<lambda>a. ebind (wr fg (1 + psi_start ix) a) (\<lambda>fg.
     ebind (rd vars (cte_start ix)) (\<lambda>a. ebind (wr fg (1 + cte_start ix) a) (\<lambda>fg.
     ebind (rd vars (epsi_start ix)) (\<lambda>a. ebind (wr fg (1 + epsi_start ix) a) (\<lambda>fg.
     for_loop 1 (steps_ahead p) (constraints_step m_coeffs p ix vars) fg))))))))))))))"

subsection \<open>The driver: \<^verbatim>\<open>MPC::Solve\<close>\<close>

text \<open>
  The solver \<^verbatim>\<open>CppAD::ipopt::solve\<close> is an external library: it is a parameter \<open>ipopt\<close> of
  the model, a function from the arguments it is called with to the \<^verbatim>\<open>solve_result\<close> it
  leaves in \<^verbatim>\<open>solution\<close>. The source compares \<^verbatim>\<open>solution.status\<close> with \<^verbatim>\<open>success\<close> only, so
  the other values of the enumeration are one value here. Of the members of
  \<^verbatim>\<open>solution\<close> the source reads \<^verbatim>\<open>status\<close>, \<^verbatim>\<open>x\<close> and \<^verbatim>\<open>obj_value\<close>.
\<close>

datatype status_type = success | not_success

record solve_result =
  solution_status :: status_type
  solution_x :: "real list"
  solution_obj_value :: real

text \<open>
  The arguments of the call
  \<^verbatim>\<open>solve(options, vars, vars_lowerbound, vars_upperbound, constraints_lowerbound,
  constraints_upperbound, fg_eval, solution)\<close>.
\<close>

record ipopt_arguments =
  arg_options :: string
  arg_vars :: "real list"
  arg_vars_lowerbound :: "real list"
  arg_vars_upperbound :: "real list"
  arg_constraints_lowerbound :: "real list"
  arg_constraints_upperbound :: "real list"
  arg_fg_eval :: "real list \<Rightarrow> real list \<Rightarrow> error + real list"

text \<open>
  What a call of \<^verbatim>\<open>Solve\<close> leaves behind: the line it logs with \<^verbatim>\<open>ROS_WARN\<close> (the cost and
  the flag \<^verbatim>\<open>ok\<close>) and the vector it returns.
\<close>

record Solve_outcome =
  ros_warn :: "real \<times> bool"
  returned :: "real list"

text \<open>
  \<^verbatim>\<open>Dvector v(n)\<close>: a vector of \<open>n\<close> doubles whose contents the source does not rely on;
  the model takes them from the parameter \<open>fresh\<close>.
\<close>

definition Dvector :: "(nat \<Rightarrow> real) \<Rightarrow> nat \<Rightarrow> real list" where
  "Dvector fresh n = map fresh [0..<n]"

text \<open>
  \<^verbatim>\<open>size_t n_vars = m_params.steps_ahead * 5 + (m_params.steps_ahead - 1) * 2;\<close>
  \<^verbatim>\<open>size_t n_constraints = m_params.steps_ahead * 5;\<close>
\<close>

definition n_vars :: "Params \<Rightarrow> nat" where
  "n_vars p = size_add (size_mul (steps_ahead p) 5) (size_mul (size_sub (steps_ahead p) 1) 2)"

definition n_constraints :: "Params \<Rightarrow> nat" where
  "n_constraints p = size_mul (steps_ahead p) 5"

text \<open>
  The number \<open>5N + 2(N - 1)\<close> of decision variables of a horizon \<open>N\<close> is a value of
  \<^verbatim>\<open>size_t\<close>: then none of the size computations of the constructor and of \<^verbatim>\<open>Solve\<close> wraps
  around. A horizon without this property has no decision vector and no constraint
  vector in a 64-bit memory, see lemma \<open>layout_fits_if_vectors_fit\<close>.
\<close>

definition layout_fits :: "Params \<Rightarrow> bool" where
  "layout_fits p \<longleftrightarrow> steps_ahead p * 5 + (steps_ahead p - 1) * 2 < 2 ^ 64"

text \<open>
  The body shared by the loops that fill a pair of bound vectors:
  \<^verbatim>\<open>lowerbound[i] = l; upperbound[i] = u;\<close>
\<close>

definition set_bounds ::
  "real \<Rightarrow> real \<Rightarrow> nat \<Rightarrow> real list \<times> real list \<Rightarrow> error + real list \<times> real list" where
  "set_bounds l u i b =
     (case b of (lowerbound, upperbound) \<Rightarrow>
        ebind (wr lowerbound i l) (\<lambda>lowerbound.
        ebind (wr upperbound i u) (\<lambda>upperbound.
        Inr (lowerbound, upperbound))))"

text \<open>The text assembled in \<^verbatim>\<open>options\<close>, four lines.\<close>

definition Solve_options :: string where
  "Solve_options =
     ''Integer print_level  2'' @ [CHR 0x0A] @
     ''Sparse  true        forward'' @ [CHR 0x0A] @
     ''Sparse  true        reverse'' @ [CHR 0x0A] @
     ''Numeric max_cpu_time          0.5'' @ [CHR 0x0A]"

text \<open>
  \<^verbatim>\<open>Solve\<close> up to the call of the solver (lines 199 to 284 of the source): the five reads of
  \<^verbatim>\<open>state\<close>, the start vector, the bounds of the variables (three loops), the bounds of
  the constraints (one loop and ten assignments), the function object, the options.
\<close>

definition Solve_arguments ::
  "real \<Rightarrow> (nat \<Rightarrow> real) \<Rightarrow> MPC \<Rightarrow> real list \<Rightarrow> real list \<Rightarrow> real \<Rightarrow>
   error + ipopt_arguments" where
  "Solve_arguments SPEED_UPPERBOUND fresh mpc state coeffs new_ref_v =
     (let p = m_params mpc; ix = m_indexes mpc in
      ebind (rd state 0) (\<lambda>x.
      ebind (rd state 1) (\<lambda>y.
      ebind (rd state 2) (\<lambda>psi.
      ebind (rd state 3) (\<lambda>cte.
      ebind (rd state 4) (\<lambda>epsi.
      ebind (for_loop 0 (n_vars p) (\<lambda>i vars. wr vars i 0) (Dvector fresh (n_vars p))) (\<lambda>vars.
      ebind (for_loop 0 (delta_start ix) (set_bounds (- (10 ^ 19)) (10 ^ 19))
               (Dvector fresh (n_vars p), Dvector fresh (n_vars p))) (\<lambda>b.
      ebind (for_loop (delta_start ix) (v_start ix)
               (set_bounds (- 0.017453 * delta_constraint) (0.017453 * delta_constraint)) b)
        (\<lambda>b.
      ebind (for_loop (v_start ix) (n_vars p) (set_bounds 0 SPEED_UPPERBOUND) b)
        (\<lambda>(vars_lowerbound, vars_upperbound).
      ebind (for_loop 0 (n_constraints p) (set_bounds 0 0)
               (Dvector fresh (n_constraints p), Dvector fresh (n_constraints p)))
        (\<lambda>(cl, cu).
      ebind (wr cl (x_start ix) x) (\<lambda>cl.
      ebind (wr cl (y_start ix) y) (\<lambda>cl.
      ebind (wr cl (psi_start ix) psi) (\<lambda>cl.
      ebind (wr cl (cte_start ix) cte) (\<lambda>cl.
      ebind (wr cl (epsi_start ix) epsi) (\<lambda>cl.
      ebind (wr cu (x_start ix) x) (\<lambda>cu.
      ebind (wr cu (y_start ix) y) (\<lambda>cu.
      ebind (wr cu (psi_start ix) psi) (\<lambda>cu.
      ebind (wr cu (cte_start ix) cte) (\<lambda>cu.
      ebind (wr cu (epsi_start ix) epsi) (\<lambda>cu.
      Inr \<lparr>arg_options = Solve_options,
           arg_vars = vars,
           arg_vars_lowerbound = vars_lowerbound,
           arg_vars_upperbound = vars_upperbound,
           arg_constraints_lowerbound = cl,
           arg_constraints_upperbound = cu,
           arg_fg_eval = FG_eval_operator coeffs p ix new_ref_v\<rparr>)))))))))))))))))))))"

text \<open>
  \<^verbatim>\<open>Solve\<close> after the call (lines 286 to 303):
  \<^verbatim>\<open>
  ok &= (solution.status == CppAD::ipopt::solve_result<Dvector>::success);
  auto cost = solution.obj_value;
  ROS_WARN("COST: %.2f, OK: %d", cost, ok);
  std::vector<double> result;
  result.reserve(2 + 2*m_params.steps_ahead);
  result.push_back(solution.x[m_indexes.delta_start]);
  result.push_back(solution.x[m_indexes.v_start]);
  for (size_t i=0; i < m_params.steps_ahead; i++) {
      result.push_back(solution.x[m_indexes.x_start + i]);
      result.push_back(solution.x[m_indexes.y_start + i]);
  }
  return result;
  \<close>
\<close>

definition push_xy :: "Indexes \<Rightarrow> real list \<Rightarrow> nat \<Rightarrow> real list \<Rightarrow> error + real list" where
  "push_xy ix sx i result =
     ebind (rd sx (x_start ix + i)) (\<lambda>a.
     ebind (rd sx (y_start ix + i)) (\<lambda>b.
     Inr ((result @ [a]) @ [b])))"

definition Solve_extract :: "MPC \<Rightarrow> solve_result \<Rightarrow> error + Solve_outcome" where
  "Solve_extract mpc solution =
     (let p = m_params mpc; ix = m_indexes mpc;
          ok = True;
          ok = (ok \<and> solution_status solution = success);
          cost = solution_obj_value solution;
          result = []
      in
      ebind (rd (solution_x solution) (delta_start ix)) (\<lambda>a.
      let result = result @ [a] in
      ebind (rd (solution_x solution) (v_start ix)) (\<lambda>a.
      let result = result @ [a] in
      ebind (for_loop 0 (steps_ahead p) (push_xy ix (solution_x solution)) result) (\<lambda>result.
      Inr \<lparr>ros_warn = (cost, ok), returned = result\<rparr>))))"

text \<open>The whole of \<^verbatim>\<open>MPC::Solve\<close>.\<close>

definition MPC_Solve ::
  "(ipopt_arguments \<Rightarrow> solve_result) \<Rightarrow> real \<Rightarrow> (nat \<Rightarrow> real) \<Rightarrow> MPC \<Rightarrow>
   real list \<Rightarrow> real list \<Rightarrow> real \<Rightarrow> error + Solve_outcome" where
  "MPC_Solve ipopt SPEED_UPPERBOUND fresh mpc state coeffs new_ref_v =
     ebind (Solve_arguments SPEED_UPPERBOUND fresh mpc state coeffs new_ref_v) (\<lambda>args.
     Solve_extract mpc (ipopt args))"

subsection \<open>The seven ranges of the layout\<close>


subsection \<open>Concrete inputs\<close>

text \<open>
  A small configuration used to run the definitions: a horizon of three steps, so
  nineteen decision variables and fifteen constraints, with \<^verbatim>\<open>SPEED_UPPERBOUND\<close> taken
  as 10.
\<close>

definition example_params :: Params where
  "example_params =
     \<lparr>steps_ahead = 3, dt = 1 / 2, ref_v = 1, cte_coeff = 100, epsi_coeff = 100,
      speed_coeff = 2, steer_coeff = 2, consec_steer_coeff = 1000, consec_speed_coeff = 5\<rparr>"

definition example_mpc :: MPC where
  "example_mpc =
     \<lparr>m_params = example_params,
      m_indexes = \<lparr>x_start = 0, y_start = 3, psi_start = 6, cte_start = 9, epsi_start = 12,
                    delta_start = 15, v_start = 17\<rparr>\<rparr>"

text \<open>
  Decision variables: \<open>x = (0, 1, 2)\<close>, \<open>y = (0, 0, 0)\<close>, \<open>psi = (0, 0, 0)\<close>,
  \<open>cte = (1, 2, 3)\<close>, \<open>epsi = (0, 0, 0)\<close>, \<open>delta = (0, 1)\<close>, \<open>v = (2, 4)\<close>.
\<close>

definition example_vars :: "real list" where
  "example_vars = [0, 1, 2, 0, 0, 0, 0, 0, 0, 1, 2, 3, 0, 0, 0, 0, 1, 2, 4]"

text \<open>
  A measured state \<open>(x, y, psi, cte, epsi) = (1, 2, 3, 4, 5)\<close> followed by a sixth entry,
  contents for freshly allocated vectors, and a solver that reports the status it is
  given, the iterate \<open>example_vars\<close> and the objective value 2442.
\<close>

definition example_state :: "real list" where
  "example_state = [1, 2, 3, 4, 5, 6]"

definition example_fresh :: "nat \<Rightarrow> real" where
  "example_fresh i = 7"

definition example_ipopt :: "status_type \<Rightarrow> ipopt_arguments \<Rightarrow> solve_result" where
  "example_ipopt st args =
     \<lparr>solution_status = st, solution_x = example_vars, solution_obj_value = 2442\<rparr>"



text \<open>
  For \<^verbatim>\<open>polyfit\<close>: contents for a freshly allocated matrix, and a stand-in for the library's
  solver, which returns the zero vector with one entry per column.
\<close>

definition example_fresh_matrix :: "nat \<Rightarrow> nat \<Rightarrow> real" where
  "example_fresh_matrix i j = 7"

definition example_solve :: "real list list \<Rightarrow> real list \<Rightarrow> real list" where
  "example_solve A b = replicate (length (hd A)) 0"

section \<open>Properties\<close>

subsection \<open>The error monad, checked access and loops\<close>

lemma ebind_Inr [simp]: "ebind (Inr a) f = f a"
  by (simp add: ebind_def)

lemma ebind_Inl [simp]: "ebind (Inl e) f = Inl e"
  by (simp add: ebind_def)

lemma ebind_eq_Inr: "ebind m f = Inr b \<longleftrightarrow> (\<exists>a. m = Inr a \<and> f a = Inr b)"
  by (cases m) simp_all

lemma rd_in [simp]: "i < length v \<Longrightarrow> rd v i = Inr (v ! i)"
  by (simp add: rd_def)

lemma rd_out [simp]: "\<not> i < length v \<Longrightarrow> rd v i = Inl IndexOutOfRange"
  by (simp add: rd_def)

lemma wr_in [simp]: "i < length v \<Longrightarrow> wr v i a = Inr (v[i := a])"
  by (simp add: wr_def)

lemma wr_out [simp]: "\<not> i < length v \<Longrightarrow> wr v i a = Inl IndexOutOfRange"
  by (simp add: wr_def)

lemma add_to_in [simp]: "i < length v \<Longrightarrow> add_to v i a = Inr (v[i := v ! i + a])"
  by (simp add: add_to_def)

lemma size_sub_le [simp]: "b \<le> a \<Longrightarrow> size_sub a b = a - b"
  by (simp add: size_sub_def)

lemma size_add_fits: "a + b < 2 ^ 64 \<Longrightarrow> size_add a b = a + b"
  by (simp add: size_add_def)

lemma size_mul_fits: "a * b < 2 ^ 64 \<Longrightarrow> size_mul a b = a * b"
  by (simp add: size_mul_def)

lemma for_loop_done [simp]: "\<not> t < b \<Longrightarrow> for_loop t b body s = Inr s"
  by (simp add: for_loop.simps)

lemma for_loop_step: "t < b \<Longrightarrow> for_loop t b body s = ebind (body t s) (for_loop (Suc t) b body)"
  by (subst for_loop.simps) (simp add: ebind_def)

lemma for_loop_Suc:
  "a \<le> b \<Longrightarrow> for_loop a (Suc b) body s = ebind (for_loop a b body s) (body b)"
proof (induction "b - a" arbitrary: a s)
  case 0
  then have "a = b" by simp
  then show ?case
    by (simp add: for_loop_step [of b "Suc b"]) (cases "body b s"; simp)
next
  case (Suc n)
  then have lt: "a < b" and n: "n = b - Suc a" and le: "Suc a \<le> b" by simp_all
  show ?case
  proof (cases "body a s")
    case (Inl e)
    with lt show ?thesis by (simp add: for_loop_step)
  next
    case (Inr s')
    with lt Suc.hyps(1) [OF n le, of s'] show ?thesis by (simp add: for_loop_step)
  qed
qed

lemma for_loop_rule:
  assumes "a \<le> b" and "I a s"
    and "\<And>t s. a \<le> t \<Longrightarrow> t < b \<Longrightarrow> I t s \<Longrightarrow> \<exists>s'. body t s = Inr s' \<and> I (Suc t) s'"
  shows "\<exists>s'. for_loop a b body s = Inr s' \<and> I b s'"
  using assms
proof (induction b)
  case 0
  then show ?case by simp
next
  case (Suc b)
  show ?case
  proof (cases "a = Suc b")
    case True
    with Suc.prems show ?thesis by simp
  next
    case False
    with Suc.prems have le: "a \<le> b" by simp
    have "\<exists>s'. for_loop a b body s = Inr s' \<and> I b s'"
      using le Suc.prems(2) Suc.prems(3) by (intro Suc.IH) auto
    then obtain s' where s': "for_loop a b body s = Inr s'" "I b s'" by blast
    from Suc.prems(3) [OF le _ s'(2)] obtain s'' where "body b s' = Inr s''" "I (Suc b) s''"
      by auto
    with s' le show ?thesis by (simp add: for_loop_Suc)
  qed
qed

subsection \<open>Loops as sums\<close>

lemma fold_add_sum:
  "fold (\<lambda>i (r::real). r + g i) [a..<b] r0 = r0 + (\<Sum>i = a..<b. g i)"
proof (induction b arbitrary: r0)
  case 0
  show ?case by simp
next
  case (Suc b)
  show ?case
  proof (cases "a \<le> b")
    case True
    then show ?thesis by (simp add: Suc.IH)
  next
    case False
    then show ?thesis by simp
  qed
qed

lemma polyeval_sum: "polyeval coeffs x = (\<Sum>i = 0..<length coeffs. coeffs ! i * x ^ i)"
  by (simp add: polyeval_def fold_add_sum)

lemma polyeval_diff_sum:
  "polyeval_diff coeffs x = (\<Sum>i = 1..<length coeffs. real i * coeffs ! i * x ^ (i - 1))"
  by (simp add: polyeval_diff_def fold_add_sum)

lemma polyeval_has_derivative:
  "((\<lambda>x. polyeval coeffs x) has_real_derivative polyeval_diff coeffs x) (at x)"
proof -
  have summand: "((\<lambda>x. coeffs ! i * x ^ i) has_real_derivative
                 real i * coeffs ! i * x ^ (i - 1)) (at x)" for i
    by (auto intro!: derivative_eq_intros)
  have "((\<lambda>x. \<Sum>i = 0..<length coeffs. coeffs ! i * x ^ i) has_real_derivative
          (\<Sum>i = 0..<length coeffs. real i * coeffs ! i * x ^ (i - 1))) (at x)"
    by (rule DERIV_sum) (rule summand)
  moreover have "(\<Sum>i = 0..<length coeffs. real i * coeffs ! i * x ^ (i - 1)) =
                 (\<Sum>i = 1..<length coeffs. real i * coeffs ! i * x ^ (i - 1))"
  proof (cases "length coeffs")
    case 0
    then show ?thesis by simp
  next
    case (Suc n)
    then show ?thesis by (simp add: sum.atLeast_Suc_lessThan)
  qed
  ultimately show ?thesis
    by (simp add: polyeval_sum [abs_def] polyeval_diff_sum)
qed

text \<open>
  Claim C10. Over exact arithmetic \<open>polyeval coeffs x\<close> is the sum of \<open>coeffs[i] * x^i\<close> over
  all indices, \<open>polyeval_diff coeffs x\<close> is the sum of \<open>i * coeffs[i] * x^(i-1)\<close> over the
  indices from 1 on, and \<open>polyeval_diff coeffs\<close> is the derivative of \<open>polyeval coeffs\<close> at
  every point.
\<close>

theorem C10_polyeval_and_derivative:
  "polyeval coeffs x = (\<Sum>i = 0..<length coeffs. coeffs ! i * x ^ i)
   \<and> polyeval_diff coeffs x = (\<Sum>i = 1..<length coeffs. real i * coeffs ! i * x ^ (i - 1))
   \<and> ((\<lambda>z. polyeval coeffs z) has_real_derivative polyeval_diff coeffs x) (at x)"
proof (intro conjI)
  show "polyeval coeffs x = (\<Sum>i = 0..<length coeffs. coeffs ! i * x ^ i)"
    by (rule polyeval_sum)
  show "polyeval_diff coeffs x =
        (\<Sum>i = 1..<length coeffs. real i * coeffs ! i * x ^ (i - 1))"
    by (rule polyeval_diff_sum)
  show "((\<lambda>z. polyeval coeffs z) has_real_derivative polyeval_diff coeffs x) (at x)"
    by (rule polyeval_has_derivative)
qed

subsection \<open>The cost and the residuals computed by \<^verbatim>\<open>FG_eval::operator()\<close>\<close>

lemma add0_loop:
  assumes "0 < length fg"
    and "\<And>t fg. t < n \<Longrightarrow> 0 < length fg \<Longrightarrow> body t fg = Inr (fg[0 := fg ! 0 + g t])"
  shows "for_loop 0 n body fg = Inr (fg[0 := fg ! 0 + (\<Sum>t = 0..<n. g t)])"
  using assms
proof (induction n)
  case 0
  then show ?case by simp
next
  case (Suc n)
  have "for_loop 0 n body fg = Inr (fg[0 := fg ! 0 + (\<Sum>t = 0..<n. g t)])"
    using Suc.prems by (intro Suc.IH) auto
  then show ?case
    using Suc.prems by (simp add: for_loop_Suc add.assoc)
qed

lemma cost_reference_step_in:
  assumes "0 < length fg" "cte_start ix + t < length vars" "epsi_start ix + t < length vars"
  shows "cost_reference_step p ix vars t fg =
         Inr (fg[0 := fg ! 0 + (cte_coeff p * (vars ! (cte_start ix + t)) ^ 2
                               + epsi_coeff p * (vars ! (epsi_start ix + t)) ^ 2)])"
  using assms by (simp add: cost_reference_step_def add.assoc)

lemma cost_actuators_step_in:
  assumes "0 < length fg" "v_start ix + t < length vars" "delta_start ix + t < length vars"
  shows "cost_actuators_step p ix r vars t fg =
         Inr (fg[0 := fg ! 0 + (speed_coeff p * (vars ! (v_start ix + t) - r) ^ 2
                               + steer_coeff p * (vars ! (delta_start ix + t)) ^ 2)])"
  using assms by (simp add: cost_actuators_step_def add.assoc)

lemma cost_gap_step_in:
  assumes "0 < length fg" "v_start ix + t + 1 < length vars" "delta_start ix + t + 1 < length vars"
  shows "cost_gap_step p ix vars t fg =
         Inr (fg[0 := fg ! 0 +
               (consec_steer_coeff p * (vars ! (delta_start ix + t + 1) - vars ! (delta_start ix + t)) ^ 2
                + consec_speed_coeff p * (vars ! (v_start ix + t + 1) - vars ! (v_start ix + t)) ^ 2)])"
  using assms by (simp add: cost_gap_step_def add.assoc)


lemma constraints_step_in:
  assumes "1 \<le> t"
    and "x_start ix + t < length vars" "y_start ix + t < length vars"
    and "psi_start ix + t < length vars" "cte_start ix + t < length vars"
    and "epsi_start ix + t < length vars" "v_start ix + t - 1 < length vars"
    and "delta_start ix + t - 1 < length vars"
    and "1 + x_start ix + t < length fg" "1 + y_start ix + t < length fg"
    and "1 + psi_start ix + t < length fg" "1 + cte_start ix + t < length fg"
    and "1 + epsi_start ix + t < length fg"
  shows "constraints_step coeffs p ix vars t fg =
    Inr (fg
      [1 + x_start ix + t :=
         vars ! (x_start ix + t) -
         (vars ! (x_start ix + t - 1) +
          vars ! (v_start ix + t - 1) * cos (vars ! (psi_start ix + t - 1)) * dt p),
       1 + y_start ix + t :=
         vars ! (y_start ix + t) -
         (vars ! (y_start ix + t - 1) +
          vars ! (v_start ix + t - 1) * sin (vars ! (psi_start ix + t - 1)) * dt p),
       1 + psi_start ix + t :=
         vars ! (psi_start ix + t) -
         (vars ! (psi_start ix + t - 1) -
          vars ! (v_start ix + t - 1) * vars ! (delta_start ix + t - 1) / Lf * dt p),
       1 + cte_start ix + t :=
         vars ! (cte_start ix + t) -
         ((\<Sum>i = 0..<length coeffs. coeffs ! i * vars ! (x_start ix + t - 1) ^ i) -
          vars ! (y_start ix + t - 1) +
          vars ! (v_start ix + t - 1) * sin (vars ! (epsi_start ix + t - 1)) * dt p),
       1 + epsi_start ix + t :=
         vars ! (epsi_start ix + t) -
         (vars ! (psi_start ix + t - 1) -
          arctan (\<Sum>i = 1..<length coeffs.
                    real i * coeffs ! i * vars ! (x_start ix + t - 1) ^ (i - 1)) -
          vars ! (v_start ix + t - 1) * vars ! (delta_start ix + t - 1) / Lf * dt p)])"
proof -
  have rds: "rd vars (size_sub (x_start ix + t) 1) = Inr (vars ! (x_start ix + t - 1))"
    "rd vars (size_sub (y_start ix + t) 1) = Inr (vars ! (y_start ix + t - 1))"
    "rd vars (size_sub (psi_start ix + t) 1) = Inr (vars ! (psi_start ix + t - 1))"
    "rd vars (size_sub (cte_start ix + t) 1) = Inr (vars ! (cte_start ix + t - 1))"
    "rd vars (size_sub (epsi_start ix + t) 1) = Inr (vars ! (epsi_start ix + t - 1))"
    "rd vars (size_sub (v_start ix + t) 1) = Inr (vars ! (v_start ix + t - 1))"
    "rd vars (size_sub (delta_start ix + t) 1) = Inr (vars ! (delta_start ix + t - 1))"
    using assms by simp_all
  show ?thesis
    unfolding constraints_step_def rds
    using assms by (simp add: Let_def fold_add_sum)
qed


lemma five_updates_loop:
  fixes fg :: "real list"
  assumes "1 \<le> N" and "1 + 5 * N \<le> length fg"
    and step: "\<And>t g. 1 \<le> t \<Longrightarrow> t < N \<Longrightarrow> length g = length fg \<Longrightarrow>
       body t g = Inr (g[1 + t := r1 t, 1 + N + t := r2 t, 1 + 2 * N + t := r3 t,
                         1 + 3 * N + t := r4 t, 1 + 4 * N + t := r5 t])"
  shows "\<exists>fg'. for_loop 1 N body fg = Inr fg' \<and> length fg' = length fg \<and> fg' ! 0 = fg ! 0 \<and>
           (\<forall>t. 1 \<le> t \<and> t < N \<longrightarrow>
              fg' ! (1 + t) = r1 t \<and> fg' ! (1 + N + t) = r2 t \<and> fg' ! (1 + 2 * N + t) = r3 t \<and>
              fg' ! (1 + 3 * N + t) = r4 t \<and> fg' ! (1 + 4 * N + t) = r5 t)"
proof -
  define I where "I = (\<lambda>k (g::real list). length g = length fg \<and> g ! 0 = fg ! 0 \<and>
           (\<forall>t. 1 \<le> t \<and> t < k \<longrightarrow>
              g ! (1 + t) = r1 t \<and> g ! (1 + N + t) = r2 t \<and> g ! (1 + 2 * N + t) = r3 t \<and>
              g ! (1 + 3 * N + t) = r4 t \<and> g ! (1 + 4 * N + t) = r5 t))"
  have init: "I 1 fg" by (simp add: I_def)
  have keep: "\<exists>g'. body k g = Inr g' \<and> I (Suc k) g'" if "1 \<le> k" "k < N" "I k g" for k g
  proof -
    from that have len: "length g = length fg" by (simp add: I_def)
    let ?g' = "g[1 + k := r1 k, 1 + N + k := r2 k, 1 + 2 * N + k := r3 k,
                 1 + 3 * N + k := r4 k, 1 + 4 * N + k := r5 k]"
    have b: "body k g = Inr ?g'" using step [OF that(1,2) len] .
    have "I (Suc k) ?g'"
      unfolding I_def
    proof (intro conjI allI impI)
      show "length ?g' = length fg" using len by simp
      show "?g' ! 0 = fg ! 0" using that by (simp add: I_def)
    next
      fix t assume t: "1 \<le> t \<and> t < Suc k"
      have old: "g ! (1 + t) = r1 t \<and> g ! (1 + N + t) = r2 t \<and> g ! (1 + 2 * N + t) = r3 t \<and>
              g ! (1 + 3 * N + t) = r4 t \<and> g ! (1 + 4 * N + t) = r5 t" if "t < k"
        using that t \<open>I k g\<close> by (simp add: I_def)
      have inr: "1 + 4 * N + k < length g" using len assms(2) \<open>k < N\<close> by simp
      show "?g' ! (1 + t) = r1 t"
        using t old inr \<open>k < N\<close> by (cases "t = k") (simp_all add: nth_list_update)
      show "?g' ! (1 + N + t) = r2 t"
        using t old inr \<open>k < N\<close> by (cases "t = k") (simp_all add: nth_list_update)
      show "?g' ! (1 + 2 * N + t) = r3 t"
        using t old inr \<open>k < N\<close> by (cases "t = k") (simp_all add: nth_list_update)
      show "?g' ! (1 + 3 * N + t) = r4 t"
        using t old inr \<open>k < N\<close> by (cases "t = k") (simp_all add: nth_list_update)
      show "?g' ! (1 + 4 * N + t) = r5 t"
        using t old inr \<open>k < N\<close> by (cases "t = k") (simp_all add: nth_list_update)
    qed
    with b show ?thesis by blast
  qed
  have "\<exists>fg'. for_loop 1 N body fg = Inr fg' \<and> I N fg'"
    using assms(1) init keep by (rule for_loop_rule)
  then show ?thesis by (simp add: I_def)
qed


lemma cost_loops:
  assumes lay: "cte_start ix = 3 * N" "epsi_start ix = 4 * N" "delta_start ix = 5 * N"
      "v_start ix = 6 * N - 1"
    and N: "steps_ahead p = N" "2 \<le> N"
    and len: "length vars = 7 * N - 2" "0 < length fg"
  shows "ebind (for_loop 0 (steps_ahead p) (cost_reference_step p ix vars) fg) (\<lambda>fg.
         ebind (for_loop 0 (size_sub (steps_ahead p) 1) (cost_actuators_step p ix r vars) fg) (\<lambda>fg.
         ebind (for_loop 0 (size_sub (steps_ahead p) 2) (cost_gap_step p ix vars) fg) k))
       = k (fg[0 := fg ! 0 +
           (\<Sum>t = 0..<N. cte_coeff p * (vars ! (cte_start ix + t)) ^ 2
                           + epsi_coeff p * (vars ! (epsi_start ix + t)) ^ 2) +
           (\<Sum>t = 0..<N - 1. speed_coeff p * (vars ! (v_start ix + t) - r) ^ 2
                           + steer_coeff p * (vars ! (delta_start ix + t)) ^ 2) +
           (\<Sum>t = 0..<N - 2.
              consec_steer_coeff p *
                (vars ! (delta_start ix + t + 1) - vars ! (delta_start ix + t)) ^ 2
              + consec_speed_coeff p *
                (vars ! (v_start ix + t + 1) - vars ! (v_start ix + t)) ^ 2)])"
proof -
  have l1: "for_loop 0 N (cost_reference_step p ix vars) g =
        Inr (g[0 := g ! 0 + (\<Sum>t = 0..<N. cte_coeff p * (vars ! (cte_start ix + t)) ^ 2
                           + epsi_coeff p * (vars ! (epsi_start ix + t)) ^ 2)])"
    if "0 < length g" for g
    using that
  proof (rule add0_loop)
    fix t and h :: "real list" assume "t < N" "0 < length h"
    then show "cost_reference_step p ix vars t h =
       Inr (h[0 := h ! 0 + (cte_coeff p * (vars ! (cte_start ix + t)) ^ 2
                           + epsi_coeff p * (vars ! (epsi_start ix + t)) ^ 2)])"
      using lay len N by (intro cost_reference_step_in) simp_all
  qed
  have l2: "for_loop 0 (N - 1) (cost_actuators_step p ix r vars) g =
        Inr (g[0 := g ! 0 + (\<Sum>t = 0..<N - 1. speed_coeff p * (vars ! (v_start ix + t) - r) ^ 2
                           + steer_coeff p * (vars ! (delta_start ix + t)) ^ 2)])"
    if "0 < length g" for g
    using that
  proof (rule add0_loop)
    fix t and h :: "real list" assume "t < N - 1" "0 < length h"
    then show "cost_actuators_step p ix r vars t h =
       Inr (h[0 := h ! 0 + (speed_coeff p * (vars ! (v_start ix + t) - r) ^ 2
                           + steer_coeff p * (vars ! (delta_start ix + t)) ^ 2)])"
      using lay len N by (intro cost_actuators_step_in) simp_all
  qed
  have l3: "for_loop 0 (N - 2) (cost_gap_step p ix vars) g =
        Inr (g[0 := g ! 0 + (\<Sum>t = 0..<N - 2.
              consec_steer_coeff p *
                (vars ! (delta_start ix + t + 1) - vars ! (delta_start ix + t)) ^ 2
              + consec_speed_coeff p *
                (vars ! (v_start ix + t + 1) - vars ! (v_start ix + t)) ^ 2)])"
    if "0 < length g" for g
    using that
  proof (rule add0_loop)
    fix t and h :: "real list" assume "t < N - 2" "0 < length h"
    then show "cost_gap_step p ix vars t h =
       Inr (h[0 := h ! 0 + (consec_steer_coeff p *
                (vars ! (delta_start ix + t + 1) - vars ! (delta_start ix + t)) ^ 2
              + consec_speed_coeff p *
                (vars ! (v_start ix + t + 1) - vars ! (v_start ix + t)) ^ 2)])"
      using lay len N by (intro cost_gap_step_in) simp_all
  qed
  define S1 where "S1 = (\<Sum>t = 0..<N. cte_coeff p * (vars ! (cte_start ix + t)) ^ 2
                           + epsi_coeff p * (vars ! (epsi_start ix + t)) ^ 2)"
  define S2 where "S2 = (\<Sum>t = 0..<N - 1. speed_coeff p * (vars ! (v_start ix + t) - r) ^ 2
                           + steer_coeff p * (vars ! (delta_start ix + t)) ^ 2)"
  define S3 where "S3 = (\<Sum>t = 0..<N - 2.
              consec_steer_coeff p *
                (vars ! (delta_start ix + t + 1) - vars ! (delta_start ix + t)) ^ 2
              + consec_speed_coeff p *
                (vars ! (v_start ix + t + 1) - vars ! (v_start ix + t)) ^ 2)"
  have b: "size_sub (steps_ahead p) 1 = N - 1" "size_sub (steps_ahead p) 2 = N - 2"
    using N by simp_all
  have e1: "for_loop 0 (steps_ahead p) (cost_reference_step p ix vars) fg =
            Inr (fg[0 := fg ! 0 + S1])"
    unfolding N(1) S1_def using len(2) by (rule l1)
  have e2: "for_loop 0 (size_sub (steps_ahead p) 1) (cost_actuators_step p ix r vars)
              (fg[0 := fg ! 0 + S1]) = Inr (fg[0 := fg ! 0 + S1 + S2])"
    unfolding b S2_def using len(2) by (subst l2) simp_all
  have e3: "for_loop 0 (size_sub (steps_ahead p) 2) (cost_gap_step p ix vars)
              (fg[0 := fg ! 0 + S1 + S2]) = Inr (fg[0 := fg ! 0 + S1 + S2 + S3])"
    unfolding b S3_def using len(2) by (subst l3) simp_all
  show ?thesis
    unfolding S1_def [symmetric] S2_def [symmetric] S3_def [symmetric]
    by (simp only: e1 e2 e3 ebind_Inr)
qed


lemma FG_eval_operator_result:
  assumes lay: "x_start ix = 0" "y_start ix = N" "psi_start ix = 2 * N" "cte_start ix = 3 * N"
      "epsi_start ix = 4 * N" "delta_start ix = 5 * N" "v_start ix = 6 * N - 1"
    and N: "steps_ahead p = N" "2 \<le> N"
    and len: "length vars = 7 * N - 2" "length fg = 1 + 5 * N"
  shows "\<exists>fg'. FG_eval_operator coeffs p ix r fg vars = Inr fg' \<and> length fg' = length fg \<and>
    fg' ! 0 =
      (\<Sum>t = 0..<N. cte_coeff p * (vars ! (cte_start ix + t)) ^ 2
                      + epsi_coeff p * (vars ! (epsi_start ix + t)) ^ 2) +
      (\<Sum>t = 0..<N - 1. speed_coeff p * (vars ! (v_start ix + t) - r) ^ 2
                      + steer_coeff p * (vars ! (delta_start ix + t)) ^ 2) +
      (\<Sum>t = 0..<N - 2.
         consec_steer_coeff p *
           (vars ! (delta_start ix + t + 1) - vars ! (delta_start ix + t)) ^ 2
         + consec_speed_coeff p *
           (vars ! (v_start ix + t + 1) - vars ! (v_start ix + t)) ^ 2) \<and>
    (\<forall>t. 1 \<le> t \<and> t < N \<longrightarrow>
       fg' ! (1 + x_start ix + t) =
         vars ! (x_start ix + t) -
         (vars ! (x_start ix + t - 1) +
          vars ! (v_start ix + t - 1) * cos (vars ! (psi_start ix + t - 1)) * dt p) \<and>
       fg' ! (1 + y_start ix + t) =
         vars ! (y_start ix + t) -
         (vars ! (y_start ix + t - 1) +
          vars ! (v_start ix + t - 1) * sin (vars ! (psi_start ix + t - 1)) * dt p) \<and>
       fg' ! (1 + psi_start ix + t) =
         vars ! (psi_start ix + t) -
         (vars ! (psi_start ix + t - 1) -
          vars ! (v_start ix + t - 1) * vars ! (delta_start ix + t - 1) / Lf * dt p) \<and>
       fg' ! (1 + cte_start ix + t) =
         vars ! (cte_start ix + t) -
         ((\<Sum>i = 0..<length coeffs. coeffs ! i * vars ! (x_start ix + t - 1) ^ i) -
          vars ! (y_start ix + t - 1) +
          vars ! (v_start ix + t - 1) * sin (vars ! (epsi_start ix + t - 1)) * dt p) \<and>
       fg' ! (1 + epsi_start ix + t) =
         vars ! (epsi_start ix + t) -
         (vars ! (psi_start ix + t - 1) -
          arctan (\<Sum>i = 1..<length coeffs.
                    real i * coeffs ! i * vars ! (x_start ix + t - 1) ^ (i - 1)) -
          vars ! (v_start ix + t - 1) * vars ! (delta_start ix + t - 1) / Lf * dt p))"
proof -
  define r1 where "r1 = (\<lambda>t. vars ! (x_start ix + t) -
         (vars ! (x_start ix + t - 1) +
          vars ! (v_start ix + t - 1) * cos (vars ! (psi_start ix + t - 1)) * dt p))"
  define r2 where "r2 = (\<lambda>t. vars ! (y_start ix + t) -
         (vars ! (y_start ix + t - 1) +
          vars ! (v_start ix + t - 1) * sin (vars ! (psi_start ix + t - 1)) * dt p))"
  define r3 where "r3 = (\<lambda>t. vars ! (psi_start ix + t) -
         (vars ! (psi_start ix + t - 1) -
          vars ! (v_start ix + t - 1) * vars ! (delta_start ix + t - 1) / Lf * dt p))"
  define r4 where "r4 = (\<lambda>t. vars ! (cte_start ix + t) -
         ((\<Sum>i = 0..<length coeffs. coeffs ! i * vars ! (x_start ix + t - 1) ^ i) -
          vars ! (y_start ix + t - 1) +
          vars ! (v_start ix + t - 1) * sin (vars ! (epsi_start ix + t - 1)) * dt p))"
  define r5 where "r5 = (\<lambda>t. vars ! (epsi_start ix + t) -
         (vars ! (psi_start ix + t - 1) -
          arctan (\<Sum>i = 1..<length coeffs.
                    real i * coeffs ! i * vars ! (x_start ix + t - 1) ^ (i - 1)) -
          vars ! (v_start ix + t - 1) * vars ! (delta_start ix + t - 1) / Lf * dt p))"
  define C where "C =
      (\<Sum>t = 0..<N. cte_coeff p * (vars ! (cte_start ix + t)) ^ 2
                      + epsi_coeff p * (vars ! (epsi_start ix + t)) ^ 2) +
      (\<Sum>t = 0..<N - 1. speed_coeff p * (vars ! (v_start ix + t) - r) ^ 2
                      + steer_coeff p * (vars ! (delta_start ix + t)) ^ 2) +
      (\<Sum>t = 0..<N - 2.
         consec_steer_coeff p *
           (vars ! (delta_start ix + t + 1) - vars ! (delta_start ix + t)) ^ 2
         + consec_speed_coeff p *
           (vars ! (v_start ix + t + 1) - vars ! (v_start ix + t)) ^ 2)"
  define g3 where "g3 = fg[0 := C]"
  define g4 where "g4 = g3[1 + x_start ix := vars ! x_start ix, 1 + y_start ix := vars ! y_start ix,
      1 + psi_start ix := vars ! psi_start ix, 1 + cte_start ix := vars ! cte_start ix,
      1 + epsi_start ix := vars ! epsi_start ix]"
  have len0: "0 < length (fg[0 := 0])" using len by simp
  have costs: "ebind (for_loop 0 (steps_ahead p) (cost_reference_step p ix vars) (fg[0 := 0])) (\<lambda>fg.
         ebind (for_loop 0 (size_sub (steps_ahead p) 1) (cost_actuators_step p ix r vars) fg) (\<lambda>fg.
         ebind (for_loop 0 (size_sub (steps_ahead p) 2) (cost_gap_step p ix vars) fg) k)) = k g3"
    for k :: "real list \<Rightarrow> error + real list"
    unfolding g3_def C_def using len(2)
    by (subst cost_loops [OF lay(4-7) N len(1) len0]) (simp add: add.assoc)
  have lg3: "length g3 = 1 + 5 * N" using len by (simp add: g3_def)
  have initial: "ebind (rd vars (x_start ix)) (\<lambda>a. ebind (wr g3 (1 + x_start ix) a) (\<lambda>fg.
     ebind (rd vars (y_start ix)) (\<lambda>a. ebind (wr fg (1 + y_start ix) a) (\<lambda>fg.
     ebind (rd vars (psi_start ix)) (\<lambda>a. ebind (wr fg (1 + psi_start ix) a) (\<lambda>fg.
     ebind (rd vars (cte_start ix)) (\<lambda>a. ebind (wr fg (1 + cte_start ix) a) (\<lambda>fg.
     ebind (rd vars (epsi_start ix)) (\<lambda>a. ebind (wr fg (1 + epsi_start ix) a) k)))))))))
     = k g4" for k :: "real list \<Rightarrow> error + real list"
    using lay N len lg3 by (simp add: g4_def)
  have lg4: "length g4 = 1 + 5 * N" using lg3 by (simp add: g4_def)
  have g40: "g4 ! 0 = C" using lg3 by (simp add: g4_def g3_def)
  have step: "constraints_step coeffs p ix vars t g =
       Inr (g[1 + t := r1 t, 1 + N + t := r2 t, 1 + 2 * N + t := r3 t,
              1 + 3 * N + t := r4 t, 1 + 4 * N + t := r5 t])"
    if "1 \<le> t" "t < N" "length g = length g4" for t g
    using that lay N len lg4
    by (subst constraints_step_in) (simp_all add: r1_def r2_def r3_def r4_def r5_def)
  have "1 \<le> N" using N by simp
  moreover have "1 + 5 * N \<le> length g4" using lg4 by simp
  ultimately have "\<exists>fg'. for_loop 1 N (constraints_step coeffs p ix vars) g4 = Inr fg' \<and>
           length fg' = length g4 \<and> fg' ! 0 = g4 ! 0 \<and>
           (\<forall>t. 1 \<le> t \<and> t < N \<longrightarrow>
              fg' ! (1 + t) = r1 t \<and> fg' ! (1 + N + t) = r2 t \<and> fg' ! (1 + 2 * N + t) = r3 t \<and>
              fg' ! (1 + 3 * N + t) = r4 t \<and> fg' ! (1 + 4 * N + t) = r5 t)"
    using step by (rule five_updates_loop)
  then obtain fg' where fg': "for_loop 1 N (constraints_step coeffs p ix vars) g4 = Inr fg'"
      "length fg' = length g4" "fg' ! 0 = g4 ! 0"
      "\<And>t. 1 \<le> t \<Longrightarrow> t < N \<Longrightarrow>
              fg' ! (1 + t) = r1 t \<and> fg' ! (1 + N + t) = r2 t \<and> fg' ! (1 + 2 * N + t) = r3 t \<and>
              fg' ! (1 + 3 * N + t) = r4 t \<and> fg' ! (1 + 4 * N + t) = r5 t"
    by blast
  have w0: "wr fg 0 0 = Inr (fg[0 := 0])" using len by simp
  have "FG_eval_operator coeffs p ix r fg vars = Inr fg'"
    unfolding FG_eval_operator_def w0 ebind_Inr costs initial
    using fg'(1) N(1) by simp
  moreover have "length fg' = length fg" using fg'(2) lg4 len by simp
  moreover have "fg' ! 0 = C" using fg'(3) g40 by simp
  moreover have "fg' ! (1 + x_start ix + t) = r1 t \<and> fg' ! (1 + y_start ix + t) = r2 t \<and>
      fg' ! (1 + psi_start ix + t) = r3 t \<and> fg' ! (1 + cte_start ix + t) = r4 t \<and>
      fg' ! (1 + epsi_start ix + t) = r5 t" if "1 \<le> t \<and> t < N" for t
    using fg'(4) [of t] that by (simp add: lay)
  ultimately show ?thesis
    unfolding C_def r1_def r2_def r3_def r4_def r5_def by blast
qed

subsection \<open>The constructor and the claims about \<^verbatim>\<open>FG_eval::operator()\<close>\<close>

lemma layout_fits_bounds:
  assumes "layout_fits p"
  shows "6 * steps_ahead p < 2 ^ 64"
    and "steps_ahead p * 5 + (steps_ahead p - 1) * 2 < 2 ^ 64"
  using assms by (simp_all add: layout_fits_def)

lemma n_constraints_fits:
  assumes "layout_fits p"
  shows "n_constraints p = 5 * steps_ahead p"
proof -
  have "steps_ahead p * 5 < 2 ^ 64"
    using layout_fits_bounds(1) [OF assms] by simp
  then show ?thesis
    by (simp add: n_constraints_def size_mul_fits)
qed

lemma n_vars_fits:
  assumes "layout_fits p" "1 \<le> steps_ahead p"
  shows "n_vars p = 7 * steps_ahead p - 2"
proof -
  note b = layout_fits_bounds [OF assms(1)]
  have 1: "size_mul (steps_ahead p) 5 = steps_ahead p * 5"
    using b(1) by (intro size_mul_fits) simp
  have 2: "size_mul (size_sub (steps_ahead p) 1) 2 = (steps_ahead p - 1) * 2"
    using b(1) assms(2) by (simp add: size_mul_fits)
  have 3: "size_add (steps_ahead p * 5) ((steps_ahead p - 1) * 2) =
           steps_ahead p * 5 + (steps_ahead p - 1) * 2"
    using b(2) by (rule size_add_fits)
  show ?thesis
    unfolding n_vars_def 1 2 3 using assms(2) by simp
qed

lemma MPC_MPC_params:
  assumes "MPC_MPC ub p = Inr mpc"
  shows "ref_v p < ub" "m_params mpc = p"
  using assms by (auto simp: MPC_MPC_def Let_def split: if_splits)

lemma MPC_MPC_offsets:
  assumes "MPC_MPC ub p = Inr mpc"
  shows "x_start (m_indexes mpc) = 0"
    "y_start (m_indexes mpc) = steps_ahead p mod 2 ^ 64"
    "psi_start (m_indexes mpc) = (2 * steps_ahead p) mod 2 ^ 64"
    "cte_start (m_indexes mpc) = (3 * steps_ahead p) mod 2 ^ 64"
    "epsi_start (m_indexes mpc) = (4 * steps_ahead p) mod 2 ^ 64"
    "delta_start (m_indexes mpc) = (5 * steps_ahead p) mod 2 ^ 64"
    "v_start (m_indexes mpc) = size_sub ((6 * steps_ahead p) mod 2 ^ 64) 1"
proof -
  have e: "(n mod 2 ^ 64 + n) mod 2 ^ 64 = (2 * n) mod 2 ^ 64"
    "((2 * n) mod 2 ^ 64 + n) mod 2 ^ 64 = (3 * n) mod 2 ^ 64"
    "((3 * n) mod 2 ^ 64 + n) mod 2 ^ 64 = (4 * n) mod 2 ^ 64"
    "((4 * n) mod 2 ^ 64 + n) mod 2 ^ 64 = (5 * n) mod 2 ^ 64"
    "((5 * n) mod 2 ^ 64 + n) mod 2 ^ 64 = (6 * n) mod 2 ^ 64" for n :: nat
  proof -
    have a: "n + n = 2 * n" "2 * n + n = 3 * n" "3 * n + n = 4 * n" "4 * n + n = 5 * n"
      "5 * n + n = 6 * n"
      by simp_all
    show "(n mod 2 ^ 64 + n) mod 2 ^ 64 = (2 * n) mod 2 ^ 64"
      "((2 * n) mod 2 ^ 64 + n) mod 2 ^ 64 = (3 * n) mod 2 ^ 64"
      "((3 * n) mod 2 ^ 64 + n) mod 2 ^ 64 = (4 * n) mod 2 ^ 64"
      "((4 * n) mod 2 ^ 64 + n) mod 2 ^ 64 = (5 * n) mod 2 ^ 64"
      "((5 * n) mod 2 ^ 64 + n) mod 2 ^ 64 = (6 * n) mod 2 ^ 64"
      by (simp_all only: mod_add_left_eq a)
  qed
  from assms have r: "ref_v p < ub"
    by (rule MPC_MPC_params)
  have "MPC_MPC ub p = Inr \<lparr>m_params = p,
        m_indexes = \<lparr>x_start = 0, y_start = steps_ahead p mod 2 ^ 64,
          psi_start = (2 * steps_ahead p) mod 2 ^ 64,
          cte_start = (3 * steps_ahead p) mod 2 ^ 64,
          epsi_start = (4 * steps_ahead p) mod 2 ^ 64,
          delta_start = (5 * steps_ahead p) mod 2 ^ 64,
          v_start = size_sub ((6 * steps_ahead p) mod 2 ^ 64) 1\<rparr>\<rparr>"
    unfolding MPC_MPC_def Let_def size_add_def
    using r by (simp only: e add_0 if_True)
  with assms have m: "mpc = \<lparr>m_params = p,
        m_indexes = \<lparr>x_start = 0, y_start = steps_ahead p mod 2 ^ 64,
          psi_start = (2 * steps_ahead p) mod 2 ^ 64,
          cte_start = (3 * steps_ahead p) mod 2 ^ 64,
          epsi_start = (4 * steps_ahead p) mod 2 ^ 64,
          delta_start = (5 * steps_ahead p) mod 2 ^ 64,
          v_start = size_sub ((6 * steps_ahead p) mod 2 ^ 64) 1\<rparr>\<rparr>"
    by simp
  show "x_start (m_indexes mpc) = 0"
    "y_start (m_indexes mpc) = steps_ahead p mod 2 ^ 64"
    "psi_start (m_indexes mpc) = (2 * steps_ahead p) mod 2 ^ 64"
    "cte_start (m_indexes mpc) = (3 * steps_ahead p) mod 2 ^ 64"
    "epsi_start (m_indexes mpc) = (4 * steps_ahead p) mod 2 ^ 64"
    "delta_start (m_indexes mpc) = (5 * steps_ahead p) mod 2 ^ 64"
    "v_start (m_indexes mpc) = size_sub ((6 * steps_ahead p) mod 2 ^ 64) 1"
    by (simp_all add: m)
qed

lemma MPC_MPC_Inr:
  assumes "MPC_MPC ub p = Inr mpc" and "layout_fits p"
  shows "ref_v p < ub" "m_params mpc = p"
    "x_start (m_indexes mpc) = 0" "y_start (m_indexes mpc) = steps_ahead p"
    "psi_start (m_indexes mpc) = 2 * steps_ahead p"
    "cte_start (m_indexes mpc) = 3 * steps_ahead p"
    "epsi_start (m_indexes mpc) = 4 * steps_ahead p"
    "delta_start (m_indexes mpc) = 5 * steps_ahead p"
    "v_start (m_indexes mpc) = size_sub (6 * steps_ahead p) 1"
proof -
  note o = MPC_MPC_offsets [OF assms(1)]
  have b: "6 * steps_ahead p < 2 ^ 64"
    using assms(2) by (rule layout_fits_bounds(1))
  show "ref_v p < ub" "m_params mpc = p"
    using assms(1) by (rule MPC_MPC_params)+
  show "x_start (m_indexes mpc) = 0" by (rule o(1))
  show "y_start (m_indexes mpc) = steps_ahead p"
    "psi_start (m_indexes mpc) = 2 * steps_ahead p"
    "cte_start (m_indexes mpc) = 3 * steps_ahead p"
    "epsi_start (m_indexes mpc) = 4 * steps_ahead p"
    "delta_start (m_indexes mpc) = 5 * steps_ahead p"
    "v_start (m_indexes mpc) = size_sub (6 * steps_ahead p) 1"
    using b by (simp_all add: o)
qed

text \<open>
  Arithmetic modulo \<open>2 ^ 64\<close>: when the offset \<open>N\<close> lies below \<open>5N\<close> after wrap-around, the
  five offsets \<open>0, N, 2N, 3N, 4N\<close> are distinct; and when \<open>7N - 2\<close> and \<open>5N\<close> both lie below
  \<open>2 ^ 61\<close> after wrap-around, nothing has wrapped.
\<close>

lemma dvd_four_times:
  fixes N :: nat
  assumes "a \<le> b" "b \<le> 4" "a \<noteq> b" "(a * N) mod 2 ^ 64 = (b * N) mod 2 ^ 64"
  shows "(2 ^ 64 :: nat) dvd 4 * N"
proof -
  have "(b * N) mod 2 ^ 64 = (a * N) mod 2 ^ 64" using assms(4) by simp
  moreover have "a * N \<le> b * N" using assms(1) by simp
  ultimately have "(2 ^ 64 :: nat) dvd b * N - a * N"
    by (simp add: mod_eq_dvd_iff_nat)
  then have d: "(2 ^ 64 :: nat) dvd (b - a) * N"
    by (simp add: diff_mult_distrib)
  from assms(1-3) consider "b - a = 1" | "b - a = 2" | "b - a = 3" | "b - a = 4"
    by linarith
  then show ?thesis
  proof cases
    case 1
    from d have "(2 ^ 64 :: nat) dvd N" unfolding 1 mult_1 .
    then show ?thesis by (rule dvd_mult)
  next
    case 2
    from d have "(2 ^ 64 :: nat) dvd 2 * N" unfolding 2 .
    then have "(2 ^ 64 :: nat) dvd 2 * (2 * N)" by (rule dvd_mult)
    moreover have "2 * (2 * N) = 4 * N" by simp
    ultimately show ?thesis by (simp only:)
  next
    case 3
    have "coprime (2 :: nat) 3" by (simp add: coprime_iff_gcd_eq_1 gcd_nat.simps [of 2 3] gcd_nat.simps [of 3 2] gcd_nat.simps [of 2 1])
    then have c: "coprime (2 ^ 64 :: nat) 3" by (simp only: coprime_power_left_iff) simp
    from d have "(2 ^ 64 :: nat) dvd 3 * N" unfolding 3 .
    with c have "(2 ^ 64 :: nat) dvd N"
      by (simp only: coprime_dvd_mult_right_iff)
    then show ?thesis by (rule dvd_mult)
  next
    case 4
    from d show ?thesis unfolding 4 .
  qed
qed

lemma offsets_distinct:
  fixes N :: nat
  assumes "N mod 2 ^ 64 < (5 * N) mod 2 ^ 64"
  shows "distinct [0, N mod 2 ^ 64, (2 * N) mod 2 ^ 64, (3 * N) mod 2 ^ 64, (4 * N) mod 2 ^ 64]"
proof -
  have no: "\<not> (2 ^ 64 :: nat) dvd 4 * N"
  proof
    assume "(2 ^ 64 :: nat) dvd 4 * N"
    then have "(4 * N + N) mod 2 ^ 64 = N mod 2 ^ 64"
      by (metis add.commute mod_add_self2 dvd_eq_mod_eq_0 mod_add_left_eq add_0)
    moreover have "4 * N + N = 5 * N" by simp
    ultimately show False using assms by simp
  qed
  have ne: "(a * N) mod 2 ^ 64 \<noteq> (b * N) mod 2 ^ 64" if "a \<le> b" "b \<le> 4" "a \<noteq> b" for a b
    using dvd_four_times [OF that] no by blast
  from ne [of 0 1] ne [of 0 2] ne [of 0 3] ne [of 0 4] ne [of 1 2] ne [of 1 3] ne [of 1 4]
    ne [of 2 3] ne [of 2 4] ne [of 3 4]
  show ?thesis by simp
qed

lemma no_wrap:
  fixes N :: nat
  assumes "N < 2 ^ 64" "1 \<le> N" "(7 * N - 2) mod 2 ^ 64 < 2 ^ 61" "(5 * N) mod 2 ^ 64 < 2 ^ 61"
  shows "7 * N - 2 < 2 ^ 64"
proof -
  define W :: nat where "W = 2 ^ 64"
  define k where "k = (5 * N) div W"
  define j where "j = (7 * N - 2) div W"
  define a where "a = (7 * N - 2) mod W"
  define b where "b = (5 * N) mod W"
  have W: "W = 18446744073709551616" by (simp add: W_def)
  have e1: "5 * N = k * W + b" by (simp add: k_def b_def)
  have e2: "7 * N - 2 = j * W + a" by (simp add: j_def a_def)
  have ab: "a < 2 ^ 61" "b < 2 ^ 61" using assms(3,4) by (simp_all add: a_def b_def W_def)
  have k: "k < 5" using assms(1) unfolding k_def W_def by (simp add: less_mult_imp_div_less)
  have j: "j < 7" using assms(1) unfolding j_def W_def
    by (intro less_mult_imp_div_less) simp
  have s7: "7 * N = j * W + a + 2" using e2 assms(2) by linarith
  have "7 * (5 * N) = 5 * (7 * N)" by simp
  then have "7 * (k * W + b) = 5 * (j * W + a + 2)" unfolding e1 s7 .
  then have eq: "7 * k * W + 7 * b = 5 * j * W + 5 * a + 10" by (simp add: algebra_simps)
  have "7 * k = 5 * j"
  proof (rule ccontr)
    assume "7 * k \<noteq> 5 * j"
    then consider "7 * k + 1 \<le> 5 * j" | "5 * j + 1 \<le> 7 * k" by linarith
    then show False
    proof cases
      case 1
      then have "(7 * k + 1) * W \<le> 5 * j * W" by (simp only: mult_le_mono1)
      with eq ab show False unfolding W by (simp add: algebra_simps)
    next
      case 2
      then have "(5 * j + 1) * W \<le> 7 * k * W" by (simp only: mult_le_mono1)
      with eq ab show False unfolding W by (simp add: algebra_simps)
    qed
  qed
  with k have "j = 0" by presburger
  with e2 ab show ?thesis by (simp add: W_def)
qed

text \<open>
  A vector of doubles in a 64-bit address space has fewer than \<open>2 ^ 61\<close> entries. So for
  every horizon that \<^verbatim>\<open>size_t\<close> can hold and for which the decision vector and the
  constraint vector of \<^verbatim>\<open>Solve\<close> exist, the layout fits.
\<close>

lemma layout_fits_if_vectors_fit:
  assumes "steps_ahead p < 2 ^ 64" and "n_vars p < 2 ^ 61" and "n_constraints p < 2 ^ 61"
  shows "layout_fits p"
proof (cases "1 \<le> steps_ahead p")
  case False
  then show ?thesis by (simp add: layout_fits_def)
next
  case True
  have "steps_ahead p * 5 + (steps_ahead p - 1) * 2 = 7 * steps_ahead p - 2"
    using True by simp
  then have v: "n_vars p = (7 * steps_ahead p - 2) mod 2 ^ 64"
    using True by (simp add: n_vars_def size_add_def size_mul_def mod_add_eq)
  have c: "n_constraints p = (5 * steps_ahead p) mod 2 ^ 64"
    by (simp add: n_constraints_def size_mul_def mult.commute)
  have "7 * steps_ahead p - 2 < 2 ^ 64"
    using assms(1) True assms(2,3) unfolding v c by (rule no_wrap)
  then show ?thesis
    using True by (simp add: layout_fits_def)
qed

lemma example_fits: "layout_fits example_params"
  by (simp add: layout_fits_def example_params_def)

lemma example_sizes: "n_vars example_params = 19" "n_constraints example_params = 15"
  using n_vars_fits [OF example_fits] n_constraints_fits [OF example_fits]
  by (simp_all add: example_params_def)

lemma MPC_MPC_example: "MPC_MPC 10 example_params = Inr example_mpc"
  by (simp add: MPC_MPC_def example_params_def example_mpc_def Let_def size_add_def)

text \<open>
  Claim C2. For a controller built by the constructor with a horizon \<open>N \<ge> 2\<close> (whose
  layout fits into \<^verbatim>\<open>size_t\<close>, as it does whenever the vectors exist), a vector
  \<open>vars\<close> of \<open>n_vars\<close> decision variables and a vector \<open>fg\<close> of \<open>1 + n_constraints\<close>
  entries, the operator returns, and for every \<open>t\<close> from 1 to \<open>N - 1\<close> the entries
  \<open>1 + x_start + t\<close>, \<open>1 + y_start + t\<close>, \<open>1 + psi_start + t\<close>, \<open>1 + cte_start + t\<close> and
  \<open>1 + epsi_start + t\<close> of the result are the five residuals
  \<open>x\<^sub>t - (x\<^sub>t\<^sub>-\<^sub>1 + v\<^sub>t\<^sub>-\<^sub>1 cos psi\<^sub>t\<^sub>-\<^sub>1 dt)\<close>,
  \<open>y\<^sub>t - (y\<^sub>t\<^sub>-\<^sub>1 + v\<^sub>t\<^sub>-\<^sub>1 sin psi\<^sub>t\<^sub>-\<^sub>1 dt)\<close>,
  \<open>psi\<^sub>t - (psi\<^sub>t\<^sub>-\<^sub>1 - v\<^sub>t\<^sub>-\<^sub>1 delta\<^sub>t\<^sub>-\<^sub>1 / Lf dt)\<close>,
  \<open>cte\<^sub>t - (f x\<^sub>t\<^sub>-\<^sub>1 - y\<^sub>t\<^sub>-\<^sub>1 + v\<^sub>t\<^sub>-\<^sub>1 sin epsi\<^sub>t\<^sub>-\<^sub>1 dt)\<close> and
  \<open>epsi\<^sub>t - (psi\<^sub>t\<^sub>-\<^sub>1 - arctan (f' x\<^sub>t\<^sub>-\<^sub>1) - v\<^sub>t\<^sub>-\<^sub>1 delta\<^sub>t\<^sub>-\<^sub>1 / Lf dt)\<close>,
  where \<open>f\<close> is the polynomial of the captured coefficients and \<open>f'\<close> its derivative.
\<close>

theorem C2_dynamics_residuals:
  assumes "MPC_MPC SPEED_UPPERBOUND params = Inr mpc"
    and "2 \<le> steps_ahead params"
    and "length vars = n_vars params"
    and "length fg = 1 + n_constraints params"
    and "ix = m_indexes mpc"
    and "layout_fits params"
  shows "\<exists>fg'. FG_eval_operator coeffs (m_params mpc) ix m_ref_v fg vars = Inr fg' \<and>
    (\<forall>t. 1 \<le> t \<and> t < steps_ahead params \<longrightarrow>
       fg' ! (1 + x_start ix + t) =
         vars ! (x_start ix + t) -
         (vars ! (x_start ix + t - 1) +
          vars ! (v_start ix + t - 1) * cos (vars ! (psi_start ix + t - 1)) * dt params) \<and>
       fg' ! (1 + y_start ix + t) =
         vars ! (y_start ix + t) -
         (vars ! (y_start ix + t - 1) +
          vars ! (v_start ix + t - 1) * sin (vars ! (psi_start ix + t - 1)) * dt params) \<and>
       fg' ! (1 + psi_start ix + t) =
         vars ! (psi_start ix + t) -
         (vars ! (psi_start ix + t - 1) -
          vars ! (v_start ix + t - 1) * vars ! (delta_start ix + t - 1) / Lf * dt params) \<and>
       fg' ! (1 + cte_start ix + t) =
         vars ! (cte_start ix + t) -
         ((\<Sum>i = 0..<length coeffs. coeffs ! i * vars ! (x_start ix + t - 1) ^ i) -
          vars ! (y_start ix + t - 1) +
          vars ! (v_start ix + t - 1) * sin (vars ! (epsi_start ix + t - 1)) * dt params) \<and>
       fg' ! (1 + epsi_start ix + t) =
         vars ! (epsi_start ix + t) -
         (vars ! (psi_start ix + t - 1) -
          arctan (\<Sum>i = 1..<length coeffs.
                    real i * coeffs ! i * vars ! (x_start ix + t - 1) ^ (i - 1)) -
          vars ! (v_start ix + t - 1) * vars ! (delta_start ix + t - 1) / Lf * dt params))"
proof -
  note c = MPC_MPC_Inr [OF assms(1) assms(6)]
  have lay: "x_start ix = 0" "y_start ix = steps_ahead params"
    "psi_start ix = 2 * steps_ahead params" "cte_start ix = 3 * steps_ahead params"
    "epsi_start ix = 4 * steps_ahead params" "delta_start ix = 5 * steps_ahead params"
    "v_start ix = 6 * steps_ahead params - 1"
    using c(3-9) assms(2,5) by simp_all
  have lv: "length vars = 7 * steps_ahead params - 2"
    using assms(2,3) by (simp add: n_vars_fits [OF assms(6)])
  have lf: "length fg = 1 + 5 * steps_ahead params"
    using assms(4) by (simp add: n_constraints_fits [OF assms(6)])
  from FG_eval_operator_result [OF lay refl assms(2) lv lf, of coeffs m_ref_v]
  show ?thesis
    unfolding c(2) by blast
qed

theorem C2_dynamics_residuals_witness:
  "\<exists>fg'. FG_eval_operator [1, 2] example_params (m_indexes example_mpc) 1
            (replicate 16 0) example_vars = Inr fg' \<and>
     fg' ! 2 = 0 \<and> fg' ! 5 = 0 \<and> fg' ! 8 = 0 \<and> fg' ! 11 = 1 \<and> fg' ! 14 = arctan 2 \<and>
     fg' ! 3 = - 1 \<and> fg' ! 6 = 0 \<and> fg' ! 9 = 4 / Lf * (1 / 2) \<and> fg' ! 12 = 0 \<and>
     fg' ! 15 = arctan 2 + 4 / Lf * (1 / 2)"
proof -
  have p: "m_params example_mpc = example_params"
    by (simp add: example_mpc_def)
  have h2: "2 \<le> steps_ahead example_params"
    by (simp add: example_params_def)
  have h3: "length example_vars = n_vars example_params"
    by (simp add: example_sizes example_vars_def)
  have h4: "length (replicate 16 0 :: real list) = 1 + n_constraints example_params"
    by (simp add: example_sizes)
  from C2_dynamics_residuals [OF MPC_MPC_example h2 h3 h4 refl example_fits, of "[1, 2]" 1]
  obtain fg' where e: "FG_eval_operator [1, 2] example_params (m_indexes example_mpc) 1
            (replicate 16 0) example_vars = Inr fg'"
    and r: "\<And>t. 1 \<le> t \<and> t < steps_ahead example_params \<Longrightarrow>
       fg' ! (1 + x_start (m_indexes example_mpc) + t) =
         example_vars ! (x_start (m_indexes example_mpc) + t) -
         (example_vars ! (x_start (m_indexes example_mpc) + t - 1) +
          example_vars ! (v_start (m_indexes example_mpc) + t - 1) *
          cos (example_vars ! (psi_start (m_indexes example_mpc) + t - 1)) * dt example_params) \<and>
       fg' ! (1 + y_start (m_indexes example_mpc) + t) =
         example_vars ! (y_start (m_indexes example_mpc) + t) -
         (example_vars ! (y_start (m_indexes example_mpc) + t - 1) +
          example_vars ! (v_start (m_indexes example_mpc) + t - 1) *
          sin (example_vars ! (psi_start (m_indexes example_mpc) + t - 1)) * dt example_params) \<and>
       fg' ! (1 + psi_start (m_indexes example_mpc) + t) =
         example_vars ! (psi_start (m_indexes example_mpc) + t) -
         (example_vars ! (psi_start (m_indexes example_mpc) + t - 1) -
          example_vars ! (v_start (m_indexes example_mpc) + t - 1) *
          example_vars ! (delta_start (m_indexes example_mpc) + t - 1) / Lf * dt example_params) \<and>
       fg' ! (1 + cte_start (m_indexes example_mpc) + t) =
         example_vars ! (cte_start (m_indexes example_mpc) + t) -
         ((\<Sum>i = 0..<length [1, 2 :: real].
             [1, 2] ! i * example_vars ! (x_start (m_indexes example_mpc) + t - 1) ^ i) -
          example_vars ! (y_start (m_indexes example_mpc) + t - 1) +
          example_vars ! (v_start (m_indexes example_mpc) + t - 1) *
          sin (example_vars ! (epsi_start (m_indexes example_mpc) + t - 1)) * dt example_params) \<and>
       fg' ! (1 + epsi_start (m_indexes example_mpc) + t) =
         example_vars ! (epsi_start (m_indexes example_mpc) + t) -
         (example_vars ! (psi_start (m_indexes example_mpc) + t - 1) -
          arctan (\<Sum>i = 1..<length [1, 2 :: real].
                    real i * [1, 2] ! i *
                    example_vars ! (x_start (m_indexes example_mpc) + t - 1) ^ (i - 1)) -
          example_vars ! (v_start (m_indexes example_mpc) + t - 1) *
          example_vars ! (delta_start (m_indexes example_mpc) + t - 1) / Lf * dt example_params)"
    unfolding p by blast
  have two: "{0..<2::nat} = {0, 1}" "{1..<2::nat} = {1}" by auto
  from r [of 1] have "fg' ! 2 = 0 \<and> fg' ! 5 = 0 \<and> fg' ! 8 = 0 \<and> fg' ! 11 = 1 \<and>
      fg' ! 14 = arctan 2"
    by (simp add: example_params_def example_mpc_def example_vars_def two) (simp add: numeral_2_eq_2 numeral_3_eq_3)?
  moreover from r [of 2] have "fg' ! 3 = - 1 \<and> fg' ! 6 = 0 \<and> fg' ! 9 = 4 / Lf * (1 / 2) \<and>
      fg' ! 12 = 0 \<and> fg' ! 15 = arctan 2 + 4 / Lf * (1 / 2)"
    by (simp add: example_params_def example_mpc_def example_vars_def two) (simp add: numeral_2_eq_2 numeral_3_eq_3)?
  ultimately show ?thesis using e by blast
qed


text \<open>
  Claim C3. Under the same conditions (a constructed controller, \<open>N \<ge> 2\<close>, a layout that
  fits, \<open>n_vars\<close> decision variables and \<open>1 + n_constraints\<close> entries of \<open>fg\<close>) entry 0 of
  the result, the cost, is the sum over
  \<open>t = 0..N-1\<close> of \<open>cte_coeff cte\<^sub>t\<^sup>2 + epsi_coeff epsi\<^sub>t\<^sup>2\<close>, plus the sum over \<open>t = 0..N-2\<close>
  of \<open>speed_coeff (v\<^sub>t - ref_v)\<^sup>2 + steer_coeff delta\<^sub>t\<^sup>2\<close>, plus the sum over \<open>t = 0..N-3\<close>
  of \<open>consec_steer_coeff (delta\<^sub>t\<^sub>+\<^sub>1 - delta\<^sub>t)\<^sup>2 + consec_speed_coeff (v\<^sub>t\<^sub>+\<^sub>1 - v\<^sub>t)\<^sup>2\<close>;
  \<open>ref_v\<close> is the reference speed the function object was built with.
\<close>

theorem C3_cost:
  assumes "MPC_MPC SPEED_UPPERBOUND params = Inr mpc"
    and "2 \<le> steps_ahead params"
    and "length vars = n_vars params"
    and "length fg = 1 + n_constraints params"
    and "ix = m_indexes mpc"
    and "N = steps_ahead params"
    and "layout_fits params"
  shows "\<exists>fg'. FG_eval_operator coeffs (m_params mpc) ix m_ref_v fg vars = Inr fg' \<and>
    fg' ! 0 =
      (\<Sum>t = 0..<N. cte_coeff params * (vars ! (cte_start ix + t)) ^ 2
                      + epsi_coeff params * (vars ! (epsi_start ix + t)) ^ 2) +
      (\<Sum>t = 0..<N - 1. speed_coeff params * (vars ! (v_start ix + t) - m_ref_v) ^ 2
                      + steer_coeff params * (vars ! (delta_start ix + t)) ^ 2) +
      (\<Sum>t = 0..<N - 2.
         consec_steer_coeff params *
           (vars ! (delta_start ix + t + 1) - vars ! (delta_start ix + t)) ^ 2
         + consec_speed_coeff params *
           (vars ! (v_start ix + t + 1) - vars ! (v_start ix + t)) ^ 2)"
proof -
  note c = MPC_MPC_Inr [OF assms(1) assms(7)]
  have lay: "x_start ix = 0" "y_start ix = N" "psi_start ix = 2 * N" "cte_start ix = 3 * N"
    "epsi_start ix = 4 * N" "delta_start ix = 5 * N" "v_start ix = 6 * N - 1"
    using c(3-9) assms(2,5,6) by simp_all
  have lv: "length vars = 7 * N - 2"
    using assms(2,3,6) by (simp add: n_vars_fits [OF assms(7)])
  have lf: "length fg = 1 + 5 * N"
    using assms(4,6) by (simp add: n_constraints_fits [OF assms(7)])
  have N: "steps_ahead params = N" "2 \<le> N" using assms(2,6) by simp_all
  from FG_eval_operator_result [OF lay N lv lf, of coeffs m_ref_v]
  show ?thesis
    unfolding c(2) by blast
qed

theorem C3_cost_witness:
  "\<exists>fg'. FG_eval_operator [1, 2] example_params (m_indexes example_mpc) 1
            (replicate 16 0) example_vars = Inr fg' \<and> fg' ! 0 = 2442"
proof -
  have p: "m_params example_mpc = example_params"
    by (simp add: example_mpc_def)
  have h2: "2 \<le> steps_ahead example_params"
    by (simp add: example_params_def)
  have h3: "length example_vars = n_vars example_params"
    by (simp add: example_sizes example_vars_def)
  have h4: "length (replicate 16 0 :: real list) = 1 + n_constraints example_params"
    by (simp add: example_sizes)
  have n: "3 = steps_ahead example_params"
    by (simp add: example_params_def)
  have sets: "{0..<3::nat} = {0, 1, 2}" "{0..<2::nat} = {0, 1}" "{0..<1::nat} = {0}"
    by auto
  from C3_cost [OF MPC_MPC_example h2 h3 h4 refl n example_fits, of "[1, 2]" 1]
  show ?thesis
    unfolding p
    by (simp add: example_params_def example_mpc_def example_vars_def sets)
qed

subsection \<open>The layout computed by the constructor, and what the constructor checks\<close>





text \<open>
  Claim C8, as the code has it. The constructor fails, in its assertion, exactly for the
  parameters whose \<^verbatim>\<open>ref_v\<close> is not below \<^verbatim>\<open>SPEED_UPPERBOUND\<close>; for all other parameters
  it yields a controller holding them, whatever the horizon: it has no check of
  \<^verbatim>\<open>steps_ahead\<close>.
\<close>

theorem C8_constructor_checks_speed_only:
  "(SPEED_UPPERBOUND \<le> ref_v params \<longrightarrow>
      MPC_MPC SPEED_UPPERBOUND params = Inl AssertionFailed) \<and>
   (ref_v params < SPEED_UPPERBOUND \<longrightarrow>
      (\<exists>mpc. MPC_MPC SPEED_UPPERBOUND params = Inr mpc \<and> m_params mpc = params))"
  by (simp add: MPC_MPC_def Let_def)

theorem C8_constructor_checks_speed_only_witness:
  "MPC_MPC 10 (example_params\<lparr>ref_v := 10\<rparr>) = Inl AssertionFailed \<and>
   (\<exists>mpc. MPC_MPC 10 example_params = Inr mpc \<and> m_params mpc = example_params)"
  using C8_constructor_checks_speed_only [of 10 "example_params\<lparr>ref_v := 10\<rparr>"]
    C8_constructor_checks_speed_only [of 10 example_params]
  by (simp add: example_params_def)

text \<open>
  The claim as the specification states it fails: a horizon of one step, with a
  reference speed below the bound, is accepted by the constructor.
\<close>

theorem C8_counterexample:
  "MPC_MPC 10 (example_params\<lparr>steps_ahead := 1\<rparr>) =
     Inr \<lparr>m_params = example_params\<lparr>steps_ahead := 1\<rparr>,
          m_indexes = \<lparr>x_start = 0, y_start = 1, psi_start = 2, cte_start = 3,
                        epsi_start = 4, delta_start = 5, v_start = 5\<rparr>\<rparr>"
  by (simp add: MPC_MPC_def example_params_def Let_def size_add_def)

subsection \<open>The arguments \<^verbatim>\<open>MPC::Solve\<close> passes to the solver\<close>

lemma set_bounds_in:
  assumes "i < length lo" "i < length up"
  shows "set_bounds l u i (lo, up) = Inr (lo[i := l], up[i := u])"
  using assms by (simp add: set_bounds_def)

lemma set_bounds_loop:
  assumes "a \<le> b" "b \<le> n" "length lo = n" "length up = n"
  shows "\<exists>lo' up'. for_loop a b (set_bounds l u) (lo, up) = Inr (lo', up') \<and>
     length lo' = n \<and> length up' = n \<and>
     (\<forall>i < n. lo' ! i = (if a \<le> i \<and> i < b then l else lo ! i) \<and>
                up' ! i = (if a \<le> i \<and> i < b then u else up ! i))"
proof -
  define I where "I = (\<lambda>k (s :: real list \<times> real list).
     length (fst s) = n \<and> length (snd s) = n \<and>
     (\<forall>i < n. fst s ! i = (if a \<le> i \<and> i < k then l else lo ! i) \<and>
                snd s ! i = (if a \<le> i \<and> i < k then u else up ! i)))"
  have init: "I a (lo, up)" using assms by (simp add: I_def)
  have keep: "\<exists>s'. set_bounds l u k s = Inr s' \<and> I (Suc k) s'"
    if "a \<le> k" "k < b" "I k s" for k s
  proof -
    obtain lo1 up1 where s: "s = (lo1, up1)" by (cases s)
    from that s assms have len: "k < length lo1" "k < length up1"
      by (simp_all add: I_def)
    have "I (Suc k) (lo1[k := l], up1[k := u])"
      using that s len by (auto simp: I_def nth_list_update less_Suc_eq)
    then show ?thesis by (simp add: s set_bounds_in [OF len])
  qed
  have "\<exists>s'. for_loop a b (set_bounds l u) (lo, up) = Inr s' \<and> I b s'"
    using assms(1) init keep by (rule for_loop_rule)
  then show ?thesis by (auto simp: I_def)
qed

lemma zero_loop:
  assumes "length v = n"
  shows "for_loop 0 n (\<lambda>i vars. wr vars i 0) v = Inr (replicate n (0::real))"
proof -
  define I where "I = (\<lambda>k (w :: real list). length w = n \<and> (\<forall>i < k. w ! i = 0))"
  have "\<exists>w. for_loop 0 n (\<lambda>i vars. wr vars i 0) v = Inr w \<and> I n w"
  proof (rule for_loop_rule)
    show "0 \<le> n" by simp
    show "I 0 v" using assms by (simp add: I_def)
    fix t w assume "t < n" "I t w"
    then show "\<exists>s'. wr w t 0 = Inr s' \<and> I (Suc t) s'"
      by (auto simp: I_def nth_list_update less_Suc_eq)
  qed
  then obtain w where w: "for_loop 0 n (\<lambda>i vars. wr vars i 0) v = Inr w" "I n w" by blast
  from w(2) have "w = replicate n 0"
    by (auto simp: I_def list_eq_iff_nth_eq)
  with w(1) show ?thesis by simp
qed

lemma length_Dvector [simp]: "length (Dvector fresh n) = n"
  by (simp add: Dvector_def)


lemma Solve_arguments_result:
  assumes c: "MPC_MPC ub p = Inr mpc" and N1: "1 \<le> steps_ahead p" and st: "5 \<le> length state"
    and fits: "layout_fits p"
  shows "\<exists>lo up. Solve_arguments ub fresh mpc state coeffs r =
      Inr \<lparr>arg_options = Solve_options,
           arg_vars = replicate (n_vars p) 0,
           arg_vars_lowerbound = lo,
           arg_vars_upperbound = up,
           arg_constraints_lowerbound =
             (replicate (n_constraints p) 0)
               [x_start (m_indexes mpc) := state ! 0, y_start (m_indexes mpc) := state ! 1,
                psi_start (m_indexes mpc) := state ! 2, cte_start (m_indexes mpc) := state ! 3,
                epsi_start (m_indexes mpc) := state ! 4],
           arg_constraints_upperbound =
             (replicate (n_constraints p) 0)
               [x_start (m_indexes mpc) := state ! 0, y_start (m_indexes mpc) := state ! 1,
                psi_start (m_indexes mpc) := state ! 2, cte_start (m_indexes mpc) := state ! 3,
                epsi_start (m_indexes mpc) := state ! 4],
           arg_fg_eval = FG_eval_operator coeffs p (m_indexes mpc) r\<rparr> \<and>
      length lo = n_vars p \<and> length up = n_vars p \<and>
      (\<forall>i < n_vars p.
         lo ! i = (if i < delta_start (m_indexes mpc) then - (10 ^ 19)
                   else if i < v_start (m_indexes mpc) then - 0.017453 * delta_constraint
                   else 0) \<and>
         up ! i = (if i < delta_start (m_indexes mpc) then 10 ^ 19
                   else if i < v_start (m_indexes mpc) then 0.017453 * delta_constraint
                   else ub))"
proof -
  note m = MPC_MPC_Inr [OF c fits]
  define N where "N = steps_ahead p"
  have lay: "x_start (m_indexes mpc) = 0" "y_start (m_indexes mpc) = N"
    "psi_start (m_indexes mpc) = 2 * N" "cte_start (m_indexes mpc) = 3 * N"
    "epsi_start (m_indexes mpc) = 4 * N" "delta_start (m_indexes mpc) = 5 * N"
    "v_start (m_indexes mpc) = 6 * N - 1"
    using m(3-9) N1 by (simp_all add: N_def)
  have nv: "n_vars p = 7 * N - 2" using N1 by (simp add: n_vars_fits [OF fits] N_def)
  have nc: "n_constraints p = 5 * N" by (simp add: n_constraints_fits [OF fits] N_def)
  have N: "1 \<le> N" using N1 by (simp add: N_def)
  have e0: "for_loop 0 (n_vars p) (\<lambda>i vars. wr vars i 0) (Dvector fresh (n_vars p)) =
            Inr (replicate (n_vars p) 0)"
    by (rule zero_loop) simp
  have le: "0 \<le> delta_start (m_indexes mpc)" "delta_start (m_indexes mpc) \<le> n_vars p"
    "delta_start (m_indexes mpc) \<le> v_start (m_indexes mpc)" "v_start (m_indexes mpc) \<le> n_vars p"
    "0 \<le> n_constraints p" "n_constraints p \<le> n_constraints p" "n_vars p \<le> n_vars p"
    using N by (simp_all add: lay nv)
  obtain lo1 up1 where e1: "for_loop 0 (delta_start (m_indexes mpc))
        (set_bounds (- (10 ^ 19)) (10 ^ 19)) (Dvector fresh (n_vars p), Dvector fresh (n_vars p))
        = Inr (lo1, up1)"
    and l1: "length lo1 = n_vars p" "length up1 = n_vars p"
    and n1: "\<forall>i < n_vars p.
       lo1 ! i = (if 0 \<le> i \<and> i < delta_start (m_indexes mpc) then - (10 ^ 19)
                  else Dvector fresh (n_vars p) ! i) \<and>
       up1 ! i = (if 0 \<le> i \<and> i < delta_start (m_indexes mpc) then 10 ^ 19
                  else Dvector fresh (n_vars p) ! i)"
    using set_bounds_loop [OF le(1,2) length_Dvector [of fresh] length_Dvector [of fresh],
        where l = "- (10 ^ 19)" and u = "10 ^ 19"]
    by blast
  obtain lo2 up2 where e2: "for_loop (delta_start (m_indexes mpc)) (v_start (m_indexes mpc))
        (set_bounds (- 0.017453 * delta_constraint) (0.017453 * delta_constraint)) (lo1, up1)
        = Inr (lo2, up2)"
    and l2: "length lo2 = n_vars p" "length up2 = n_vars p"
    and n2: "\<forall>i < n_vars p.
       lo2 ! i = (if delta_start (m_indexes mpc) \<le> i \<and> i < v_start (m_indexes mpc)
                  then - 0.017453 * delta_constraint else lo1 ! i) \<and>
       up2 ! i = (if delta_start (m_indexes mpc) \<le> i \<and> i < v_start (m_indexes mpc)
                  then 0.017453 * delta_constraint else up1 ! i)"
    using set_bounds_loop [OF le(3,4) l1, where l = "- 0.017453 * delta_constraint"
        and u = "0.017453 * delta_constraint"]
    by blast
  obtain lo3 up3 where e3: "for_loop (v_start (m_indexes mpc)) (n_vars p)
        (set_bounds 0 ub) (lo2, up2) = Inr (lo3, up3)"
    and l3: "length lo3 = n_vars p" "length up3 = n_vars p"
    and n3: "\<forall>i < n_vars p.
       lo3 ! i = (if v_start (m_indexes mpc) \<le> i \<and> i < n_vars p then 0 else lo2 ! i) \<and>
       up3 ! i = (if v_start (m_indexes mpc) \<le> i \<and> i < n_vars p then ub else up2 ! i)"
    using set_bounds_loop [OF le(4,7) l2, where l = 0 and u = ub]
    by blast
  obtain cl0 cu0 where e4': "for_loop 0 (n_constraints p) (set_bounds 0 0)
        (Dvector fresh (n_constraints p), Dvector fresh (n_constraints p)) = Inr (cl0, cu0)"
    and l4: "length cl0 = n_constraints p" "length cu0 = n_constraints p"
    and n4': "\<forall>i < n_constraints p.
       cl0 ! i = (if 0 \<le> i \<and> i < n_constraints p then 0
                  else Dvector fresh (n_constraints p) ! i) \<and>
       cu0 ! i = (if 0 \<le> i \<and> i < n_constraints p then 0
                  else Dvector fresh (n_constraints p) ! i)"
    using set_bounds_loop [OF le(5,6) length_Dvector [of fresh] length_Dvector [of fresh],
        where l = 0 and u = 0]
    by blast
  have n4: "\<And>i. i < n_constraints p \<Longrightarrow> cl0 ! i = 0 \<and> cu0 ! i = 0"
    using n4' by simp
  have "cl0 = replicate (n_constraints p) 0" "cu0 = replicate (n_constraints p) 0"
    using l4 n4 by (simp_all add: list_eq_iff_nth_eq)
  with e4' have e4: "for_loop 0 (n_constraints p) (set_bounds 0 0)
        (Dvector fresh (n_constraints p), Dvector fresh (n_constraints p)) =
        Inr (replicate (n_constraints p) 0, replicate (n_constraints p) 0)"
    by simp
  have s0: "state \<noteq> []" using st by auto
  have eq: "Solve_arguments ub fresh mpc state coeffs r =
      Inr \<lparr>arg_options = Solve_options,
           arg_vars = replicate (n_vars p) 0,
           arg_vars_lowerbound = lo3,
           arg_vars_upperbound = up3,
           arg_constraints_lowerbound =
             (replicate (n_constraints p) 0)
               [x_start (m_indexes mpc) := state ! 0, y_start (m_indexes mpc) := state ! 1,
                psi_start (m_indexes mpc) := state ! 2, cte_start (m_indexes mpc) := state ! 3,
                epsi_start (m_indexes mpc) := state ! 4],
           arg_constraints_upperbound =
             (replicate (n_constraints p) 0)
               [x_start (m_indexes mpc) := state ! 0, y_start (m_indexes mpc) := state ! 1,
                psi_start (m_indexes mpc) := state ! 2, cte_start (m_indexes mpc) := state ! 3,
                epsi_start (m_indexes mpc) := state ! 4],
           arg_fg_eval = FG_eval_operator coeffs p (m_indexes mpc) r\<rparr>"
    unfolding Solve_arguments_def Let_def m(2) e0 e1 e2 e3 e4 ebind_Inr prod.case
    using st N s0 by (simp add: lay nc)
  have bounds: "lo3 ! i = (if i < delta_start (m_indexes mpc) then - (10 ^ 19)
                   else if i < v_start (m_indexes mpc) then - 0.017453 * delta_constraint
                   else 0) \<and>
         up3 ! i = (if i < delta_start (m_indexes mpc) then 10 ^ 19
                   else if i < v_start (m_indexes mpc) then 0.017453 * delta_constraint
                   else ub)" if "i < n_vars p" for i
    using n1 n2 n3 that N
    by (auto simp: lay nv)
  from eq l3 bounds show ?thesis by blast
qed


lemma ebind_rd_Inl [simp]: "ebind (rd v i) (\<lambda>x. Inl IndexOutOfRange) = Inl IndexOutOfRange"
  by (simp add: rd_def)

lemma constraints_zero_loop:
  "for_loop 0 n (set_bounds 0 0) (Dvector fresh n, Dvector fresh n) =
   Inr (replicate n 0, replicate n 0)"
proof -
  have le: "(0::nat) \<le> n" "n \<le> n" by simp_all
  obtain cl0 cu0 where e: "for_loop 0 n (set_bounds 0 0) (Dvector fresh n, Dvector fresh n) =
      Inr (cl0, cu0)"
    and l: "length cl0 = n" "length cu0 = n"
    and z: "\<forall>i < n.
       cl0 ! i = (if 0 \<le> i \<and> i < n then 0 else Dvector fresh n ! i) \<and>
       cu0 ! i = (if 0 \<le> i \<and> i < n then 0 else Dvector fresh n ! i)"
    using set_bounds_loop [OF le length_Dvector [of fresh] length_Dvector [of fresh],
        where l = 0 and u = 0]
    by blast
  have "cl0 = replicate n 0" "cu0 = replicate n 0"
    using l z by (simp_all add: list_eq_iff_nth_eq)
  with e show ?thesis by simp
qed

lemma wr_eq_Inr: "wr v i a = Inr v' \<longleftrightarrow> i < length v \<and> v' = v[i := a]"
  by (auto simp: wr_def)

lemma Solve_arguments_Inr_constraints:
  assumes "Solve_arguments ub fresh mpc state coeffs r = Inr args"
  shows "arg_constraints_lowerbound args =
      (replicate (n_constraints (m_params mpc)) 0)
        [x_start (m_indexes mpc) := state ! 0, y_start (m_indexes mpc) := state ! 1,
         psi_start (m_indexes mpc) := state ! 2, cte_start (m_indexes mpc) := state ! 3,
         epsi_start (m_indexes mpc) := state ! 4]"
    and "arg_constraints_upperbound args =
      (replicate (n_constraints (m_params mpc)) 0)
        [x_start (m_indexes mpc) := state ! 0, y_start (m_indexes mpc) := state ! 1,
         psi_start (m_indexes mpc) := state ! 2, cte_start (m_indexes mpc) := state ! 3,
         epsi_start (m_indexes mpc) := state ! 4]"
    and "x_start (m_indexes mpc) < n_constraints (m_params mpc)"
    and "y_start (m_indexes mpc) < n_constraints (m_params mpc)"
    and "psi_start (m_indexes mpc) < n_constraints (m_params mpc)"
    and "cte_start (m_indexes mpc) < n_constraints (m_params mpc)"
    and "epsi_start (m_indexes mpc) < n_constraints (m_params mpc)"
  using assms unfolding Solve_arguments_def Let_def constraints_zero_loop
  by (auto simp: ebind_eq_Inr wr_eq_Inr rd_def split: if_splits)

lemma Solve_arguments_Inr_state:
  assumes "Solve_arguments ub fresh mpc state coeffs r = Inr args"
  shows "5 \<le> length state"
proof (rule ccontr)
  assume "\<not> 5 \<le> length state"
  then have "rd state 4 = Inl IndexOutOfRange" by (simp add: rd_def)
  then have "Solve_arguments ub fresh mpc state coeffs r = Inl IndexOutOfRange"
    by (simp add: Solve_arguments_def Let_def)
  with assms show False by simp
qed

lemma Solve_arguments_Inr_horizon:
  assumes "MPC_MPC ub p = Inr mpc"
    and "Solve_arguments ub fresh mpc state coeffs r = Inr args"
  shows "1 \<le> steps_ahead p"
proof (rule ccontr)
  assume "\<not> 1 \<le> steps_ahead p"
  then have z: "steps_ahead p = 0" by simp
  note m = MPC_MPC_params [OF assms(1)]
  have nc: "n_constraints (m_params mpc) = 0" by (simp add: m(2) z n_constraints_def size_mul_def)
  have w: "wr [] (x_start (m_indexes mpc)) a = Inl IndexOutOfRange" for a :: real
    by simp
  from assms(2) show False
    unfolding Solve_arguments_def Let_def nc
    by (auto simp: ebind_eq_Inr Dvector_def)
qed


text \<open>
  Claim C6. Whenever \<^verbatim>\<open>Solve\<close>, on a controller built by the constructor for a horizon
  whose layout fits into \<^verbatim>\<open>size_t\<close> (as it does whenever the vectors that \<^verbatim>\<open>Solve\<close> allocates
  exist), gets as far as calling the solver, the bound vectors it passes have \<open>n_vars\<close> and \<open>n_constraints\<close>
  entries and: every index below \<open>delta_start\<close> has the bounds \<open>-10\<^sup>1\<^sup>9\<close> and \<open>10\<^sup>1\<^sup>9\<close>; every
  index from \<open>delta_start\<close> to \<open>v_start - 1\<close> has the bounds \<open>\<mp> 0.017453 * delta_constraint\<close>
  (the largest steering angle, 25 degrees in radians); every index from \<open>v_start\<close> to
  \<open>n_vars - 1\<close> has the bounds 0 and \<^verbatim>\<open>SPEED_UPPERBOUND\<close>; every constraint has both bounds
  0, except those at \<open>x_start\<close>, \<open>y_start\<close>, \<open>psi_start\<close>, \<open>cte_start\<close> and \<open>epsi_start\<close>, whose
  two bounds are the entries 0 to 4 of the state.
\<close>

theorem C6_bounds:
  assumes "MPC_MPC SPEED_UPPERBOUND params = Inr mpc"
    and "Solve_arguments SPEED_UPPERBOUND fresh mpc state coeffs new_ref_v = Inr args"
    and "ix = m_indexes mpc"
    and "layout_fits params"
  shows "length (arg_vars_lowerbound args) = n_vars params \<and>
    length (arg_vars_upperbound args) = n_vars params \<and>
    (\<forall>i. i < delta_start ix \<longrightarrow>
       arg_vars_lowerbound args ! i = - (10 ^ 19) \<and> arg_vars_upperbound args ! i = 10 ^ 19) \<and>
    (\<forall>i. delta_start ix \<le> i \<and> i < v_start ix \<longrightarrow>
       arg_vars_lowerbound args ! i = - 0.017453 * delta_constraint \<and>
       arg_vars_upperbound args ! i = 0.017453 * delta_constraint) \<and>
    (\<forall>i. v_start ix \<le> i \<and> i < n_vars params \<longrightarrow>
       arg_vars_lowerbound args ! i = 0 \<and> arg_vars_upperbound args ! i = SPEED_UPPERBOUND) \<and>
    length (arg_constraints_lowerbound args) = n_constraints params \<and>
    length (arg_constraints_upperbound args) = n_constraints params \<and>
    (\<forall>i. i < n_constraints params \<and>
         i \<notin> {x_start ix, y_start ix, psi_start ix, cte_start ix, epsi_start ix} \<longrightarrow>
       arg_constraints_lowerbound args ! i = 0 \<and> arg_constraints_upperbound args ! i = 0) \<and>
    arg_constraints_lowerbound args ! x_start ix = state ! 0 \<and>
    arg_constraints_upperbound args ! x_start ix = state ! 0 \<and>
    arg_constraints_lowerbound args ! y_start ix = state ! 1 \<and>
    arg_constraints_upperbound args ! y_start ix = state ! 1 \<and>
    arg_constraints_lowerbound args ! psi_start ix = state ! 2 \<and>
    arg_constraints_upperbound args ! psi_start ix = state ! 2 \<and>
    arg_constraints_lowerbound args ! cte_start ix = state ! 3 \<and>
    arg_constraints_upperbound args ! cte_start ix = state ! 3 \<and>
    arg_constraints_lowerbound args ! epsi_start ix = state ! 4 \<and>
    arg_constraints_upperbound args ! epsi_start ix = state ! 4"
proof -
  note m = MPC_MPC_Inr [OF assms(1) assms(4)]
  have N1: "1 \<le> steps_ahead params"
    using assms(1,2) by (rule Solve_arguments_Inr_horizon)
  have st: "5 \<le> length state"
    using assms(2) by (rule Solve_arguments_Inr_state)
  define N where "N = steps_ahead params"
  have N: "1 \<le> N" using N1 by (simp add: N_def)
  have lay: "x_start ix = 0" "y_start ix = N" "psi_start ix = 2 * N" "cte_start ix = 3 * N"
    "epsi_start ix = 4 * N" "delta_start ix = 5 * N" "v_start ix = 6 * N - 1"
    using m(3-9) N1 assms(3) by (simp_all add: N_def)
  have nv: "n_vars params = 7 * N - 2" using N1 by (simp add: n_vars_fits [OF assms(4)] N_def)
  have nc: "n_constraints params = 5 * N" by (simp add: n_constraints_fits [OF assms(4)] N_def)
  from Solve_arguments_result [OF assms(1) N1 st assms(4), of fresh coeffs new_ref_v] assms(2)
  obtain lo up where args: "args =
      \<lparr>arg_options = Solve_options,
           arg_vars = replicate (n_vars params) 0,
           arg_vars_lowerbound = lo,
           arg_vars_upperbound = up,
           arg_constraints_lowerbound =
             (replicate (n_constraints params) 0)
               [x_start ix := state ! 0, y_start ix := state ! 1,
                psi_start ix := state ! 2, cte_start ix := state ! 3,
                epsi_start ix := state ! 4],
           arg_constraints_upperbound =
             (replicate (n_constraints params) 0)
               [x_start ix := state ! 0, y_start ix := state ! 1,
                psi_start ix := state ! 2, cte_start ix := state ! 3,
                epsi_start ix := state ! 4],
           arg_fg_eval = FG_eval_operator coeffs params ix new_ref_v\<rparr>"
    and len: "length lo = n_vars params" "length up = n_vars params"
    and b: "\<forall>i < n_vars params.
         lo ! i = (if i < delta_start ix then - (10 ^ 19)
                   else if i < v_start ix then - 0.017453 * delta_constraint
                   else 0) \<and>
         up ! i = (if i < delta_start ix then 10 ^ 19
                   else if i < v_start ix then 0.017453 * delta_constraint
                   else SPEED_UPPERBOUND)"
    unfolding assms(3) by auto
  have lo_up: "arg_vars_lowerbound args = lo" "arg_vars_upperbound args = up"
    by (simp_all add: args)
  have v1: "\<forall>i. i < delta_start ix \<longrightarrow>
       arg_vars_lowerbound args ! i = - (10 ^ 19) \<and> arg_vars_upperbound args ! i = 10 ^ 19"
    unfolding lo_up using b N by (auto simp: lay nv)
  have v2: "\<forall>i. delta_start ix \<le> i \<and> i < v_start ix \<longrightarrow>
       arg_vars_lowerbound args ! i = - 0.017453 * delta_constraint \<and>
       arg_vars_upperbound args ! i = 0.017453 * delta_constraint"
    unfolding lo_up using b N by (auto simp: lay nv)
  have v3: "\<forall>i. v_start ix \<le> i \<and> i < n_vars params \<longrightarrow>
       arg_vars_lowerbound args ! i = 0 \<and> arg_vars_upperbound args ! i = SPEED_UPPERBOUND"
    unfolding lo_up using b N by (auto simp: lay nv)
  have c0: "\<forall>i. i < n_constraints params \<and>
         i \<notin> {x_start ix, y_start ix, psi_start ix, cte_start ix, epsi_start ix} \<longrightarrow>
       arg_constraints_lowerbound args ! i = 0 \<and> arg_constraints_upperbound args ! i = 0"
    using N by (simp add: args lay nc)
  have c1: "arg_constraints_lowerbound args ! x_start ix = state ! 0"
    "arg_constraints_upperbound args ! x_start ix = state ! 0"
    "arg_constraints_lowerbound args ! y_start ix = state ! 1"
    "arg_constraints_upperbound args ! y_start ix = state ! 1"
    "arg_constraints_lowerbound args ! psi_start ix = state ! 2"
    "arg_constraints_upperbound args ! psi_start ix = state ! 2"
    "arg_constraints_lowerbound args ! cte_start ix = state ! 3"
    "arg_constraints_upperbound args ! cte_start ix = state ! 3"
    "arg_constraints_lowerbound args ! epsi_start ix = state ! 4"
    "arg_constraints_upperbound args ! epsi_start ix = state ! 4"
    using N by (simp_all add: args lay nc)
  have l: "length (arg_vars_lowerbound args) = n_vars params"
    "length (arg_vars_upperbound args) = n_vars params"
    "length (arg_constraints_lowerbound args) = n_constraints params"
    "length (arg_constraints_upperbound args) = n_constraints params"
    using len by (simp_all add: args)
  show ?thesis
    using l v1 v2 v3 c0 c1 by blast
qed


lemma example_horizon: "1 \<le> steps_ahead example_params"
  by (simp add: example_params_def)

lemma example_state_length: "5 \<le> length example_state"
  by (simp add: example_state_def)

theorem C6_bounds_witness:
  "\<exists>args. Solve_arguments 10 example_fresh example_mpc example_state [1, 2] 1 = Inr args \<and>
     length (arg_vars_lowerbound args) = 19 \<and>
     arg_vars_lowerbound args ! 14 = - (10 ^ 19) \<and> arg_vars_upperbound args ! 14 = 10 ^ 19 \<and>
     arg_vars_lowerbound args ! 15 = - 0.017453 * delta_constraint \<and>
     arg_vars_upperbound args ! 16 = 0.017453 * delta_constraint \<and>
     arg_vars_lowerbound args ! 17 = 0 \<and> arg_vars_upperbound args ! 18 = 10 \<and>
     length (arg_constraints_lowerbound args) = 15 \<and>
     arg_constraints_lowerbound args ! 1 = 0 \<and> arg_constraints_upperbound args ! 14 = 0 \<and>
     arg_constraints_lowerbound args ! 9 = 4 \<and> arg_constraints_upperbound args ! 12 = 5"
proof -
  from Solve_arguments_result [OF MPC_MPC_example example_horizon example_state_length example_fits]
  obtain args where a: "Solve_arguments 10 example_fresh example_mpc example_state [1, 2] 1 =
      Inr args"
    by blast
  define ix where "ix = m_indexes example_mpc"
  have ix: "x_start ix = 0" "y_start ix = 3" "psi_start ix = 6" "cte_start ix = 9"
    "epsi_start ix = 12" "delta_start ix = 15" "v_start ix = 17"
    by (simp_all add: ix_def example_mpc_def)
  have n: "n_vars example_params = 19" "n_constraints example_params = 15"
    by (rule example_sizes)+
  note c = C6_bounds [OF MPC_MPC_example a ix_def example_fits, unfolded n ix]
  have "length (arg_vars_lowerbound args) = 19" using c by blast
  moreover have "arg_vars_lowerbound args ! 14 = - (10 ^ 19) \<and>
      arg_vars_upperbound args ! 14 = 10 ^ 19"
  proof -
    have "(14::nat) < 15" by simp
    with c show ?thesis by blast
  qed
  moreover have "arg_vars_lowerbound args ! 15 = - 0.017453 * delta_constraint \<and>
     arg_vars_upperbound args ! 16 = 0.017453 * delta_constraint"
  proof -
    have "(15::nat) \<le> 15 \<and> (15::nat) < 17" "(15::nat) \<le> 16 \<and> (16::nat) < 17" by simp_all
    with c show ?thesis by blast
  qed
  moreover have "arg_vars_lowerbound args ! 17 = 0 \<and> arg_vars_upperbound args ! 18 = 10"
  proof -
    have "(17::nat) \<le> 17 \<and> (17::nat) < 19" "(17::nat) \<le> 18 \<and> (18::nat) < 19" by simp_all
    with c show ?thesis by blast
  qed
  moreover have "length (arg_constraints_lowerbound args) = 15" using c by blast
  moreover have "arg_constraints_lowerbound args ! 1 = 0 \<and>
      arg_constraints_upperbound args ! 14 = 0"
  proof -
    have "(1::nat) < 15 \<and> (1::nat) \<notin> {0, 3, 6, 9, 12}"
      "(14::nat) < 15 \<and> (14::nat) \<notin> {0, 3, 6, 9, 12}" by simp_all
    with c show ?thesis by blast
  qed
  moreover have "arg_constraints_lowerbound args ! 9 = 4 \<and>
      arg_constraints_upperbound args ! 12 = 5"
  proof -
    have "example_state ! 3 = 4" "example_state ! 4 = 5" by (simp_all add: example_state_def)
    with c show ?thesis by simp
  qed
  ultimately show ?thesis using a by blast
qed

subsection \<open>Which entries of the state are read, what is returned, and what becomes of the status\<close>

lemma Solve_arguments_cong:
  assumes "rd state 0 = rd state' 0" "rd state 1 = rd state' 1" "rd state 2 = rd state' 2"
    "rd state 3 = rd state' 3" "rd state 4 = rd state' 4"
  shows "Solve_arguments ub fresh mpc state coeffs r = Solve_arguments ub fresh mpc state' coeffs r"
  unfolding Solve_arguments_def assms ..

lemma rd_take5:
  assumes "5 \<le> length state" "5 \<le> length state'" "take 5 state = take 5 state'" "i < 5"
  shows "rd state i = rd state' i"
proof -
  have "state ! i = take 5 state ! i" "state' ! i = take 5 state' ! i"
    using assms(4) by simp_all
  then have "state ! i = state' ! i" using assms(3) by simp
  then show ?thesis using assms by (simp add: rd_def)
qed

text \<open>
  Claim C4. When the state vector has at least five entries, \<^verbatim>\<open>Solve\<close> reads entries 0 to
  4 only: two state vectors with the same first five entries give the same arguments to
  the solver and the same outcome. The entries are taken in the order
  \<open>(x, y, psi, cte, epsi)\<close>: on a controller built by the constructor, the constraint
  bounds passed to the solver are zero everywhere except at \<open>x_start\<close>, \<open>y_start\<close>,
  \<open>psi_start\<close>, \<open>cte_start\<close> and \<open>epsi_start\<close>, where both bounds are \<open>state[0]\<close>, \<open>state[1]\<close>,
  \<open>state[2]\<close>, \<open>state[3]\<close> (the cross-track error) and \<open>state[4]\<close> (the heading error). No
  further entry of the state, so no speed, is read or pinned.
\<close>

theorem C4_state_entries:
  assumes "MPC_MPC SPEED_UPPERBOUND params = Inr mpc"
    and "5 \<le> length state" and "5 \<le> length state'"
    and "take 5 state = take 5 state'"
    and "ix = m_indexes mpc"
  shows "Solve_arguments SPEED_UPPERBOUND fresh mpc state coeffs new_ref_v =
         Solve_arguments SPEED_UPPERBOUND fresh mpc state' coeffs new_ref_v \<and>
    MPC_Solve ipopt SPEED_UPPERBOUND fresh mpc state coeffs new_ref_v =
    MPC_Solve ipopt SPEED_UPPERBOUND fresh mpc state' coeffs new_ref_v \<and>
    (\<forall>args. Solve_arguments SPEED_UPPERBOUND fresh mpc state coeffs new_ref_v = Inr args \<longrightarrow>
       arg_constraints_lowerbound args =
         (replicate (n_constraints params) 0)
           [x_start ix := state ! 0, y_start ix := state ! 1, psi_start ix := state ! 2,
            cte_start ix := state ! 3, epsi_start ix := state ! 4] \<and>
       arg_constraints_upperbound args = arg_constraints_lowerbound args \<and>
       arg_constraints_lowerbound args ! x_start ix = state ! 0 \<and>
       arg_constraints_lowerbound args ! y_start ix = state ! 1 \<and>
       arg_constraints_lowerbound args ! psi_start ix = state ! 2 \<and>
       arg_constraints_lowerbound args ! cte_start ix = state ! 3 \<and>
       arg_constraints_lowerbound args ! epsi_start ix = state ! 4)"
proof -
  have eq: "Solve_arguments SPEED_UPPERBOUND fresh mpc state coeffs new_ref_v =
         Solve_arguments SPEED_UPPERBOUND fresh mpc state' coeffs new_ref_v"
    by (rule Solve_arguments_cong) (simp_all add: rd_take5 [OF assms(2-4)])
  then have eq': "MPC_Solve ipopt SPEED_UPPERBOUND fresh mpc state coeffs new_ref_v =
    MPC_Solve ipopt SPEED_UPPERBOUND fresh mpc state' coeffs new_ref_v"
    by (simp add: MPC_Solve_def)
  note o = MPC_MPC_offsets [OF assms(1)]
  have mp: "m_params mpc = params" using assms(1) by (rule MPC_MPC_params)
  have pinned: "arg_constraints_lowerbound args =
         (replicate (n_constraints params) 0)
           [x_start ix := state ! 0, y_start ix := state ! 1, psi_start ix := state ! 2,
            cte_start ix := state ! 3, epsi_start ix := state ! 4] \<and>
       arg_constraints_upperbound args = arg_constraints_lowerbound args \<and>
       arg_constraints_lowerbound args ! x_start ix = state ! 0 \<and>
       arg_constraints_lowerbound args ! y_start ix = state ! 1 \<and>
       arg_constraints_lowerbound args ! psi_start ix = state ! 2 \<and>
       arg_constraints_lowerbound args ! cte_start ix = state ! 3 \<and>
       arg_constraints_lowerbound args ! epsi_start ix = state ! 4"
    if a: "Solve_arguments SPEED_UPPERBOUND fresh mpc state coeffs new_ref_v = Inr args"
    for args
  proof -
    note c = Solve_arguments_Inr_constraints [OF a, unfolded mp, folded assms(5)]
    have "steps_ahead params mod 2 ^ 64 < (5 * steps_ahead params) mod 2 ^ 64"
      using c(4) unfolding assms(5) o(2) n_constraints_def size_mul_def
      by (simp only: mult.commute)
    then have "distinct [0, steps_ahead params mod 2 ^ 64, (2 * steps_ahead params) mod 2 ^ 64,
        (3 * steps_ahead params) mod 2 ^ 64, (4 * steps_ahead params) mod 2 ^ 64]"
      by (rule offsets_distinct)
    then have d: "distinct [x_start ix, y_start ix, psi_start ix, cte_start ix, epsi_start ix]"
      unfolding assms(5) o(1-5) .
    have k: "arg_constraints_upperbound args = arg_constraints_lowerbound args"
      using c(1,2) by simp
    have n: "arg_constraints_lowerbound args ! x_start ix = state ! 0"
      "arg_constraints_lowerbound args ! y_start ix = state ! 1"
      "arg_constraints_lowerbound args ! psi_start ix = state ! 2"
      "arg_constraints_lowerbound args ! cte_start ix = state ! 3"
      "arg_constraints_lowerbound args ! epsi_start ix = state ! 4"
      unfolding c(1) using d c(3-7) by (auto simp: nth_list_update)
    from c(1) k n show ?thesis by blast
  qed
  with eq eq' show ?thesis by blast
qed

theorem C4_state_entries_witness:
  "Solve_arguments 10 example_fresh example_mpc example_state [1, 2] 1 =
   Solve_arguments 10 example_fresh example_mpc [1, 2, 3, 4, 5] [1, 2] 1 \<and>
   MPC_Solve (example_ipopt success) 10 example_fresh example_mpc example_state [1, 2] 1 =
   MPC_Solve (example_ipopt success) 10 example_fresh example_mpc [1, 2, 3, 4, 5] [1, 2] 1 \<and>
   (\<exists>args. Solve_arguments 10 example_fresh example_mpc example_state [1, 2] 1 = Inr args \<and>
      arg_constraints_lowerbound args = [1, 0, 0, 2, 0, 0, 3, 0, 0, 4, 0, 0, 5, 0, 0] \<and>
      arg_constraints_upperbound args = [1, 0, 0, 2, 0, 0, 3, 0, 0, 4, 0, 0, 5, 0, 0])"
proof -
  have h: "5 \<le> length example_state" "5 \<le> length [1, 2, 3, 4, 5 :: real]"
    "take 5 example_state = take 5 [1, 2, 3, 4, 5]"
    by (simp_all add: example_state_def)
  have r: "replicate 15 (0::real) = [0, 0, 0, 0, 0, 0, 0, 0, 0, 0, 0, 0, 0, 0, 0]"
    by (simp add: numeral_eq_Suc)
  note c = C4_state_entries [OF MPC_MPC_example h refl,
      of example_fresh "[1, 2]" 1 "example_ipopt success"]
  from c have e1: "Solve_arguments 10 example_fresh example_mpc example_state [1, 2] 1 =
      Solve_arguments 10 example_fresh example_mpc [1, 2, 3, 4, 5] [1, 2] 1"
    by blast
  from c have e2:
    "MPC_Solve (example_ipopt success) 10 example_fresh example_mpc example_state [1, 2] 1 =
     MPC_Solve (example_ipopt success) 10 example_fresh example_mpc [1, 2, 3, 4, 5] [1, 2] 1"
    by blast
  from Solve_arguments_result [OF MPC_MPC_example example_horizon example_state_length example_fits]
  obtain args
    where a: "Solve_arguments 10 example_fresh example_mpc example_state [1, 2] 1 = Inr args"
    by blast
  with c have cl: "arg_constraints_lowerbound args =
         (replicate (n_constraints example_params) 0)
           [x_start (m_indexes example_mpc) := example_state ! 0,
            y_start (m_indexes example_mpc) := example_state ! 1,
            psi_start (m_indexes example_mpc) := example_state ! 2,
            cte_start (m_indexes example_mpc) := example_state ! 3,
            epsi_start (m_indexes example_mpc) := example_state ! 4]"
      and cu: "arg_constraints_upperbound args = arg_constraints_lowerbound args"
    by blast+
  have v: "(replicate (n_constraints example_params) 0)
           [x_start (m_indexes example_mpc) := example_state ! 0,
            y_start (m_indexes example_mpc) := example_state ! 1,
            psi_start (m_indexes example_mpc) := example_state ! 2,
            cte_start (m_indexes example_mpc) := example_state ! 3,
            epsi_start (m_indexes example_mpc) := example_state ! 4] =
           [1, 0, 0, 2, 0, 0, 3, 0, 0, 4, 0, 0, 5, 0, 0]"
    by (simp add: example_mpc_def example_state_def example_sizes r)
  have "arg_constraints_lowerbound args = [1, 0, 0, 2, 0, 0, 3, 0, 0, 4, 0, 0, 5, 0, 0]"
    "arg_constraints_upperbound args = [1, 0, 0, 2, 0, 0, 3, 0, 0, 4, 0, 0, 5, 0, 0]"
    using cl cu v by simp_all
  with a e1 e2 show ?thesis by blast
qed


lemma push_xy_Inr:
  assumes "push_xy ix sx i result = Inr res"
  shows "x_start ix + i < length sx \<and> y_start ix + i < length sx \<and>
         res = result @ [sx ! (x_start ix + i), sx ! (y_start ix + i)]"
  using assms by (auto simp: push_xy_def rd_def ebind_eq_Inr split: if_splits)

lemma push_xy_in:
  assumes "x_start ix + i < length sx \<and> y_start ix + i < length sx"
  shows "push_xy ix sx i result = Inr (result @ [sx ! (x_start ix + i), sx ! (y_start ix + i)])"
  using assms by (simp add: push_xy_def)

lemma push_xy_loop_Inr:
  assumes "for_loop 0 n (push_xy ix sx) acc = Inr res"
  shows "res = acc @ concat (map (\<lambda>t. [sx ! (x_start ix + t), sx ! (y_start ix + t)]) [0..<n])"
  using assms
proof (induction n arbitrary: res)
  case 0
  then show ?case by simp
next
  case (Suc n)
  from Suc.prems obtain mid where mid: "for_loop 0 n (push_xy ix sx) acc = Inr mid"
    "push_xy ix sx n mid = Inr res"
    by (auto simp: for_loop_Suc ebind_eq_Inr)
  from Suc.IH [OF mid(1)] push_xy_Inr [OF mid(2)] show ?case by simp
qed

lemma push_xy_loop_in:
  assumes "\<And>t. t < n \<Longrightarrow> x_start ix + t < length sx \<and> y_start ix + t < length sx"
  shows "for_loop 0 n (push_xy ix sx) acc =
         Inr (acc @ concat (map (\<lambda>t. [sx ! (x_start ix + t), sx ! (y_start ix + t)]) [0..<n]))"
  using assms
proof (induction n)
  case 0
  then show ?case by simp
next
  case (Suc n)
  have "for_loop 0 n (push_xy ix sx) acc =
         Inr (acc @ concat (map (\<lambda>t. [sx ! (x_start ix + t), sx ! (y_start ix + t)]) [0..<n]))"
    using Suc.prems by (intro Suc.IH) auto
  moreover have "x_start ix + n < length sx \<and> y_start ix + n < length sx"
    using Suc.prems [of n] by simp
  ultimately show ?case
    by (simp add: for_loop_Suc push_xy_in)
qed

lemma Solve_extract_Inr:
  assumes "Solve_extract mpc solution = Inr out"
  shows "returned out =
      solution_x solution ! delta_start (m_indexes mpc) #
      solution_x solution ! v_start (m_indexes mpc) #
      concat (map (\<lambda>t. [solution_x solution ! (x_start (m_indexes mpc) + t),
                          solution_x solution ! (y_start (m_indexes mpc) + t)])
                [0..<steps_ahead (m_params mpc)])"
    and "ros_warn out = (solution_obj_value solution, solution_status solution = success)"
    and "delta_start (m_indexes mpc) < length (solution_x solution)"
    and "v_start (m_indexes mpc) < length (solution_x solution)"
proof -
  from assms obtain a b res where
    a: "rd (solution_x solution) (delta_start (m_indexes mpc)) = Inr a"
    and b: "rd (solution_x solution) (v_start (m_indexes mpc)) = Inr b"
    and l: "for_loop 0 (steps_ahead (m_params mpc))
              (push_xy (m_indexes mpc) (solution_x solution)) (([] @ [a]) @ [b]) = Inr res"
    and out: "out = \<lparr>ros_warn = (solution_obj_value solution,
                                   True \<and> solution_status solution = success),
                     returned = res\<rparr>"
    unfolding Solve_extract_def Let_def by (auto simp: ebind_eq_Inr)
  from a show "delta_start (m_indexes mpc) < length (solution_x solution)"
    by (simp add: rd_def split: if_splits)
  from b show "v_start (m_indexes mpc) < length (solution_x solution)"
    by (simp add: rd_def split: if_splits)
  from a have a': "a = solution_x solution ! delta_start (m_indexes mpc)"
    by (simp add: rd_def split: if_splits)
  from b have b': "b = solution_x solution ! v_start (m_indexes mpc)"
    by (simp add: rd_def split: if_splits)
  from push_xy_loop_Inr [OF l] show "returned out =
      solution_x solution ! delta_start (m_indexes mpc) #
      solution_x solution ! v_start (m_indexes mpc) #
      concat (map (\<lambda>t. [solution_x solution ! (x_start (m_indexes mpc) + t),
                          solution_x solution ! (y_start (m_indexes mpc) + t)])
                [0..<steps_ahead (m_params mpc)])"
    by (simp add: out a' b')
  show "ros_warn out = (solution_obj_value solution, solution_status solution = success)"
    by (simp add: out)
qed

lemma Solve_extract_in:
  assumes "delta_start (m_indexes mpc) < length (solution_x solution)"
    and "v_start (m_indexes mpc) < length (solution_x solution)"
    and "\<And>t. t < steps_ahead (m_params mpc) \<Longrightarrow>
          x_start (m_indexes mpc) + t < length (solution_x solution) \<and>
          y_start (m_indexes mpc) + t < length (solution_x solution)"
  shows "Solve_extract mpc solution =
     Inr \<lparr>ros_warn = (solution_obj_value solution, solution_status solution = success),
          returned =
            solution_x solution ! delta_start (m_indexes mpc) #
            solution_x solution ! v_start (m_indexes mpc) #
            concat (map (\<lambda>t. [solution_x solution ! (x_start (m_indexes mpc) + t),
                                solution_x solution ! (y_start (m_indexes mpc) + t)])
                      [0..<steps_ahead (m_params mpc)])\<rparr>"
  unfolding Solve_extract_def Let_def
  using assms(1,2) by (simp add: push_xy_loop_in [OF assms(3)])

lemma length_concat_pairs: "length (concat (map (\<lambda>t. [f t, g t]) [0..<n])) = 2 * n"
  by (induction n) simp_all


lemma Solve_extract_same_x:
  assumes "Solve_extract mpc solution = Inr out"
    and "solution_x solution' = solution_x solution"
  shows "Solve_extract mpc solution' =
     Inr (out\<lparr>ros_warn := (solution_obj_value solution', solution_status solution' = success)\<rparr>)"
  using assms unfolding Solve_extract_def Let_def
  by (auto simp: ebind_eq_Inr)

lemma MPC_Solve_example:
  "MPC_Solve (example_ipopt st) 10 example_fresh example_mpc example_state [1, 2] 1 =
     Inr \<lparr>ros_warn = (2442, st = success), returned = [0, 2, 0, 0, 1, 0, 2, 0]\<rparr>"
proof -
  from Solve_arguments_result [OF MPC_MPC_example example_horizon example_state_length example_fits]
  obtain args where a: "Solve_arguments 10 example_fresh example_mpc example_state [1, 2] 1 =
      Inr args"
    by blast
  have three: "[0..<3] = [0, 1, 2]"
    by (simp add: upt_rec)
  have "Solve_extract example_mpc (example_ipopt st args) =
     Inr \<lparr>ros_warn = (2442, st = success), returned = [0, 2, 0, 0, 1, 0, 2, 0]\<rparr>"
    by (subst Solve_extract_in)
      (auto simp: example_ipopt_def example_mpc_def example_params_def example_vars_def three)
  then show ?thesis
    by (simp add: MPC_Solve_def a)
qed

text \<open>
  Claim C7. Whenever a call of \<^verbatim>\<open>Solve\<close> gets through the extraction, the vector it returns
  has \<open>2 + 2N\<close> entries: \<^verbatim>\<open>solution.x[delta_start]\<close>, \<^verbatim>\<open>solution.x[v_start]\<close>, and then for
  \<open>t = 0..N-1\<close> the pair \<^verbatim>\<open>solution.x[x_start + t]\<close>, \<^verbatim>\<open>solution.x[y_start + t]\<close>, in this
  order.
\<close>

theorem C7_returned_vector:
  assumes "Solve_arguments SPEED_UPPERBOUND fresh mpc state coeffs new_ref_v = Inr args"
    and "MPC_Solve ipopt SPEED_UPPERBOUND fresh mpc state coeffs new_ref_v = Inr out"
    and "sx = solution_x (ipopt args)"
    and "ix = m_indexes mpc"
    and "N = steps_ahead (m_params mpc)"
  shows "length (returned out) = 2 + 2 * N \<and>
    returned out =
      sx ! delta_start ix # sx ! v_start ix #
      concat (map (\<lambda>t. [sx ! (x_start ix + t), sx ! (y_start ix + t)]) [0..<N])"
proof -
  from assms(1,2) have "Solve_extract mpc (ipopt args) = Inr out"
    by (simp add: MPC_Solve_def)
  from Solve_extract_Inr(1) [OF this]
  have r: "returned out =
      sx ! delta_start ix # sx ! v_start ix #
      concat (map (\<lambda>t. [sx ! (x_start ix + t), sx ! (y_start ix + t)]) [0..<N])"
    by (simp add: assms(3-5))
  then have "length (returned out) = 2 + 2 * N"
    by (simp add: length_concat_pairs)
  with r show ?thesis by blast
qed

theorem C7_returned_vector_witness:
  "\<exists>out. MPC_Solve (example_ipopt success) 10 example_fresh example_mpc example_state [1, 2] 1
          = Inr out \<and>
     length (returned out) = 8 \<and> returned out = [0, 2, 0, 0, 1, 0, 2, 0]"
proof -
  from Solve_arguments_result [OF MPC_MPC_example example_horizon example_state_length example_fits]
  obtain args where a: "Solve_arguments 10 example_fresh example_mpc example_state [1, 2] 1 =
      Inr args"
    by blast
  obtain out where o:
    "MPC_Solve (example_ipopt success) 10 example_fresh example_mpc example_state [1, 2] 1
     = Inr out"
    using MPC_Solve_example [of success] by blast
  have three: "[0..<3] = [0, 1, 2]"
    by (simp add: upt_rec)
  from C7_returned_vector [OF a o refl refl refl]
  have "length (returned out) = 8 \<and> returned out = [0, 2, 0, 0, 1, 0, 2, 0]"
    by (simp add: example_ipopt_def example_mpc_def example_params_def example_vars_def three)
  with o show ?thesis by blast
qed

text \<open>
  Claim C1, as the code has it. A status other than \<^verbatim>\<open>success\<close> is never an error: when a
  call of \<^verbatim>\<open>Solve\<close> returns for one result of the solver, it returns for every result
  with the same iterate \<^verbatim>\<open>solution.x\<close>, whatever its status, and it returns the same
  vector. The status reaches the line logged with \<^verbatim>\<open>ROS_WARN\<close> only, as the flag \<^verbatim>\<open>ok\<close>; the
  returned vector carries no mark of convergence.
\<close>

theorem C1_status_is_logged_not_returned:
  assumes "Solve_arguments SPEED_UPPERBOUND fresh mpc state coeffs new_ref_v = Inr args"
    and "MPC_Solve ipopt SPEED_UPPERBOUND fresh mpc state coeffs new_ref_v = Inr out"
    and "solution_x (ipopt' args) = solution_x (ipopt args)"
  shows "ros_warn out =
      (solution_obj_value (ipopt args), solution_status (ipopt args) = success) \<and>
    (\<exists>out'. MPC_Solve ipopt' SPEED_UPPERBOUND fresh mpc state coeffs new_ref_v = Inr out' \<and>
       returned out' = returned out \<and>
       ros_warn out' =
         (solution_obj_value (ipopt' args), solution_status (ipopt' args) = success))"
proof -
  from assms(1,2) have e: "Solve_extract mpc (ipopt args) = Inr out"
    by (simp add: MPC_Solve_def)
  have w: "ros_warn out =
      (solution_obj_value (ipopt args), solution_status (ipopt args) = success)"
    using e by (rule Solve_extract_Inr(2))
  from Solve_extract_same_x [OF e assms(3)] assms(1)
  have "MPC_Solve ipopt' SPEED_UPPERBOUND fresh mpc state coeffs new_ref_v =
     Inr (out\<lparr>ros_warn :=
       (solution_obj_value (ipopt' args), solution_status (ipopt' args) = success)\<rparr>)"
    by (simp add: MPC_Solve_def)
  then have "\<exists>out'. MPC_Solve ipopt' SPEED_UPPERBOUND fresh mpc state coeffs new_ref_v = Inr out' \<and>
       returned out' = returned out \<and>
       ros_warn out' =
         (solution_obj_value (ipopt' args), solution_status (ipopt' args) = success)"
    by simp
  with w show ?thesis by blast
qed

theorem C1_status_is_logged_not_returned_witness:
  "\<exists>out'. MPC_Solve (example_ipopt not_success) 10 example_fresh example_mpc example_state
             [1, 2] 1 = Inr out' \<and>
     returned out' = [0, 2, 0, 0, 1, 0, 2, 0] \<and> ros_warn out' = (2442, False)"
proof -
  from Solve_arguments_result [OF MPC_MPC_example example_horizon example_state_length example_fits]
  obtain args where a: "Solve_arguments 10 example_fresh example_mpc example_state [1, 2] 1 =
      Inr args"
    by blast
  have x: "solution_x (example_ipopt not_success args) = solution_x (example_ipopt success args)"
    by (simp add: example_ipopt_def)
  from C1_status_is_logged_not_returned [where ipopt = "example_ipopt success"
      and ipopt' = "example_ipopt not_success", OF a MPC_Solve_example [of success] x]
  show ?thesis
    by (simp add: example_ipopt_def)
qed

text \<open>
  The claim as the specification states it fails: with the same iterate, a solver that
  reports \<^verbatim>\<open>success\<close> and one that does not lead to the same returned vector; they differ
  in the logged flag only.
\<close>

theorem C1_counterexample:
  "MPC_Solve (example_ipopt success) 10 example_fresh example_mpc example_state [1, 2] 1 =
     Inr \<lparr>ros_warn = (2442, True), returned = [0, 2, 0, 0, 1, 0, 2, 0]\<rparr> \<and>
   MPC_Solve (example_ipopt not_success) 10 example_fresh example_mpc example_state [1, 2] 1 =
     Inr \<lparr>ros_warn = (2442, False), returned = [0, 2, 0, 0, 1, 0, 2, 0]\<rparr>"
  using MPC_Solve_example [of success] MPC_Solve_example [of not_success] by simp

subsection \<open>The design matrix and the assertions of \<^verbatim>\<open>polyfit\<close>\<close>

lemma set_coeff_dims:
  assumes "i < length A" "j < length (A ! i)"
  shows "length (set_coeff A i j a) = length A"
    and "k < length A \<Longrightarrow> length (set_coeff A i j a ! k) = length (A ! k)"
    and "k < length A \<Longrightarrow> set_coeff A i j a ! k ! l = (if k = i \<and> l = j then a else A ! k ! l)"
  using assms by (auto simp: set_coeff_def nth_list_update)

lemma MatrixXd_dims:
  "length (MatrixXd fresh r c) = r" "j < r \<Longrightarrow> length (MatrixXd fresh r c ! j) = c"
  by (simp_all add: MatrixXd_def)

lemma first_column_loop:
  assumes "m \<le> r" "length A = r" "\<And>j. j < r \<Longrightarrow> length (A ! j) = c" "0 < c"
  defines "B \<equiv> fold (\<lambda>i A. set_coeff A i 0 1) [0..<m] A"
  shows "length B = r \<and> (\<forall>j < r. length (B ! j) = c) \<and> (\<forall>j < m. B ! j ! 0 = 1)"
  using assms(1) unfolding B_def
proof (induction m)
  case 0
  then show ?case using assms(2,3) by simp
next
  case (Suc m)
  define B' where "B' = fold (\<lambda>i A. set_coeff A i 0 1) [0..<m] A"
  have IH: "length B' = r" "\<And>j. j < r \<Longrightarrow> length (B' ! j) = c" "\<And>j. j < m \<Longrightarrow> B' ! j ! 0 = 1"
    using Suc by (simp_all add: B'_def)
  have m: "m < length B'" "0 < length (B' ! m)"
    using Suc.prems IH(1,2) assms(4) by simp_all
  have e: "fold (\<lambda>i A. set_coeff A i 0 1) [0..<Suc m] A = set_coeff B' m 0 1"
    by (simp add: B'_def)
  show ?case
    unfolding e using IH Suc.prems
    by (auto simp: set_coeff_dims [OF m] less_Suc_eq)
qed

lemma row_loop:
  fixes x :: real
  assumes "m < c" "j < r" "length A = r" "\<And>k. k < r \<Longrightarrow> length (A ! k) = c"
  defines "B \<equiv> fold (\<lambda>i A. set_coeff A j (i + 1) (A ! j ! i * x)) [0..<m] A"
  shows "length B = r \<and> (\<forall>k < r. length (B ! k) = c) \<and>
         (\<forall>k < r. k \<noteq> j \<longrightarrow> B ! k = A ! k) \<and>
         (\<forall>i \<le> m. B ! j ! i = A ! j ! 0 * x ^ i)"
  using assms(1) unfolding B_def
proof (induction m)
  case 0
  then show ?case using assms(3,4) by simp
next
  case (Suc m)
  define B' where "B' = fold (\<lambda>i A. set_coeff A j (i + 1) (A ! j ! i * x)) [0..<m] A"
  have IH: "length B' = r" "\<And>k. k < r \<Longrightarrow> length (B' ! k) = c"
    "\<And>k. k < r \<Longrightarrow> k \<noteq> j \<Longrightarrow> B' ! k = A ! k"
    "\<And>i. i \<le> m \<Longrightarrow> B' ! j ! i = A ! j ! 0 * x ^ i"
    using Suc by (simp_all add: B'_def)
  have m: "j < length B'" "Suc m < length (B' ! j)"
    using Suc.prems IH(1,2) assms(2) by simp_all
  have e: "fold (\<lambda>i A. set_coeff A j (i + 1) (A ! j ! i * x)) [0..<Suc m] A =
           set_coeff B' j (Suc m) (B' ! j ! m * x)"
    by (simp add: B'_def)
  have rows: "set_coeff B' j (Suc m) (B' ! j ! m * x) ! k = A ! k" if "k < r" "k \<noteq> j" for k
    using that IH(1,3) by (simp add: set_coeff_def)
  have entries: "set_coeff B' j (Suc m) (B' ! j ! m * x) ! j ! i = A ! j ! 0 * x ^ i"
    if "i \<le> Suc m" for i
  proof (cases "i = Suc m")
    case True
    then show ?thesis
      using IH(4) [of m] m(1) by (simp add: set_coeff_dims(3) [OF m])
  next
    case False
    with that have "i \<le> m" by simp
    then show ?thesis
      using IH(4) [of i] False m(1) by (simp add: set_coeff_dims(3) [OF m])
  qed
  show ?case
    unfolding e using IH(1,2) rows entries
    by (simp add: set_coeff_dims [OF m])
qed


lemma rows_loop:
  fixes xs :: "real list"
  assumes "m \<le> r" "length A = r" "\<And>k. k < r \<Longrightarrow> length (A ! k) = c" "n < c"
  defines "C \<equiv> fold (\<lambda>j A. fold (\<lambda>i A. set_coeff A j (i + 1) (A ! j ! i * xs ! j)) [0..<n] A)
                  [0..<m] A"
  shows "length C = r \<and> (\<forall>k < r. length (C ! k) = c) \<and>
         (\<forall>j < m. \<forall>i \<le> n. C ! j ! i = A ! j ! 0 * xs ! j ^ i) \<and>
         (\<forall>j. m \<le> j \<and> j < r \<longrightarrow> C ! j = A ! j)"
  using assms(1) unfolding C_def
proof (induction m)
  case 0
  then show ?case using assms(2,3) by simp
next
  case (Suc m)
  define C' where "C' = fold (\<lambda>j A. fold (\<lambda>i A. set_coeff A j (i + 1) (A ! j ! i * xs ! j))
                                  [0..<n] A) [0..<m] A"
  have IH: "length C' = r" "\<And>k. k < r \<Longrightarrow> length (C' ! k) = c"
    "\<And>j i. j < m \<Longrightarrow> i \<le> n \<Longrightarrow> C' ! j ! i = A ! j ! 0 * xs ! j ^ i"
    "\<And>j. m \<le> j \<Longrightarrow> j < r \<Longrightarrow> C' ! j = A ! j"
    using Suc by (simp_all add: C'_def)
  define D where "D = fold (\<lambda>i A. set_coeff A m (i + 1) (A ! m ! i * xs ! m)) [0..<n] C'"
  have e: "fold (\<lambda>j A. fold (\<lambda>i A. set_coeff A j (i + 1) (A ! j ! i * xs ! j)) [0..<n] A)
             [0..<Suc m] A = D"
    by (simp add: C'_def D_def)
  have mr: "m < r" using Suc.prems by simp
  from row_loop [OF assms(4) mr IH(1) IH(2), of "xs ! m"]
  have D: "length D = r" "\<And>k. k < r \<Longrightarrow> length (D ! k) = c"
    "\<And>k. k < r \<Longrightarrow> k \<noteq> m \<Longrightarrow> D ! k = C' ! k"
    "\<And>i. i \<le> n \<Longrightarrow> D ! m ! i = C' ! m ! 0 * xs ! m ^ i"
    unfolding D_def by simp_all
  have done_rows: "D ! j ! i = A ! j ! 0 * xs ! j ^ i" if "j < Suc m" "i \<le> n" for j i
  proof (cases "j = m")
    case True
    then show ?thesis using D(4) [OF that(2)] IH(4) [of m] mr by simp
  next
    case False
    with that mr have "j < m" "j < r" by simp_all
    then show ?thesis using D(3) [of j] IH(3) [OF _ that(2)] False by simp
  qed
  have other_rows: "D ! j = A ! j" if "Suc m \<le> j" "j < r" for j
    using that D(3) [of j] IH(4) [of j] by simp
  show ?case
    unfolding e using D(1,2) done_rows other_rows by simp
qed

lemma polyfit_matrix:
  fixes xvals :: "real list" and fresh :: "nat \<Rightarrow> nat \<Rightarrow> real"
  assumes "0 < n"
  defines "A0 \<equiv> MatrixXd fresh (length xvals) (Suc n)"
  defines "A1 \<equiv> fold (\<lambda>i A. set_coeff A i 0 1) [0..<length xvals] A0"
  defines "A2 \<equiv> fold (\<lambda>j A. fold (\<lambda>i A. set_coeff A j (i + 1) (A ! j ! i * xvals ! j))
                                   [0..<n] A) [0..<length xvals] A1"
  shows "length A2 = length xvals \<and>
         (\<forall>j < length xvals. length (A2 ! j) = Suc n \<and> (\<forall>i \<le> n. A2 ! j ! i = xvals ! j ^ i))"
proof -
  from first_column_loop [of "length xvals" "length xvals" A0 "Suc n"]
  have A1: "length A1 = length xvals" "\<And>j. j < length xvals \<Longrightarrow> length (A1 ! j) = Suc n"
    "\<And>j. j < length xvals \<Longrightarrow> A1 ! j ! 0 = 1"
    unfolding A1_def A0_def by (simp_all add: MatrixXd_dims)
  from rows_loop [of "length xvals" "length xvals" A1 "Suc n" n xvals] A1(1,2)
  have A2: "length A2 = length xvals" "\<And>k. k < length xvals \<Longrightarrow> length (A2 ! k) = Suc n"
    "\<And>j i. j < length xvals \<Longrightarrow> i \<le> n \<Longrightarrow> A2 ! j ! i = A1 ! j ! 0 * xvals ! j ^ i"
    unfolding A2_def by simp_all
  show ?thesis
    using A2 A1(3) by simp
qed


text \<open>
  Claim C9. \<^verbatim>\<open>polyfit\<close> requires \<open>length xvals = length yvals \<ge> order + 1\<close> and \<open>order \<ge> 1\<close>:
  a call with vectors of different lengths, with \<open>order < 1\<close> or with fewer than
  \<open>order + 1\<close> points fails in an assertion, it does not truncate. A call that meets the
  requirement returns what the QR solver (Eigen's \<^verbatim>\<open>householderQr().solve\<close>, a parameter
  here) yields for the right-hand side \<open>yvals\<close> and the design matrix with one row per
  point and \<open>order + 1\<close> columns, the entry in row \<open>j\<close> and column \<open>i\<close> being \<open>xvals[j]^i\<close>.
\<close>

theorem C9_polyfit:
  "(length xvals \<noteq> length yvals \<or> order < 1 \<or> int (length xvals) < order + 1 \<longrightarrow>
      polyfit householderQr_solve fresh xvals yvals order = Inl AssertionFailed) \<and>
   (length xvals = length yvals \<and> 1 \<le> order \<and> order + 1 \<le> int (length xvals) \<longrightarrow>
      (\<exists>A. polyfit householderQr_solve fresh xvals yvals order =
              Inr (householderQr_solve A yvals) \<and>
         length A = length xvals \<and>
         (\<forall>j < length xvals. length (A ! j) = nat order + 1 \<and>
            (\<forall>i \<le> nat order. A ! j ! i = xvals ! j ^ i))))"
proof (intro conjI impI)
  assume "length xvals \<noteq> length yvals \<or> order < 1 \<or> int (length xvals) < order + 1"
  then show "polyfit householderQr_solve fresh xvals yvals order = Inl AssertionFailed"
    by (auto simp: polyfit_def)
next
  assume pre: "length xvals = length yvals \<and> 1 \<le> order \<and> order + 1 \<le> int (length xvals)"
  define A where "A = fold (\<lambda>j A. fold (\<lambda>i A. set_coeff A j (i + 1) (A ! j ! i * xvals ! j))
                                   [0..<nat order] A) [0..<length xvals]
       (fold (\<lambda>i A. set_coeff A i 0 1) [0..<length xvals]
          (MatrixXd fresh (length xvals) (Suc (nat order))))"
  have c: "nat (order + 1) = Suc (nat order)" using pre by (simp add: nat_add_distrib)
  have "polyfit householderQr_solve fresh xvals yvals order = Inr (householderQr_solve A yvals)"
    using pre by (simp add: polyfit_def Let_def c A_def)
  moreover have "0 < nat order" using pre by simp
  from polyfit_matrix [OF this, of xvals fresh]
  have "length A = length xvals \<and>
         (\<forall>j < length xvals. length (A ! j) = nat order + 1 \<and>
            (\<forall>i \<le> nat order. A ! j ! i = xvals ! j ^ i))"
    unfolding A_def by simp
  ultimately show "\<exists>A. polyfit householderQr_solve fresh xvals yvals order =
              Inr (householderQr_solve A yvals) \<and>
         length A = length xvals \<and>
         (\<forall>j < length xvals. length (A ! j) = nat order + 1 \<and>
            (\<forall>i \<le> nat order. A ! j ! i = xvals ! j ^ i))"
    by blast
qed

theorem C9_polyfit_witness:
  "polyfit example_solve example_fresh_matrix [0, 1, 2] [1, 3, 5] 0 = Inl AssertionFailed \<and>
   polyfit example_solve example_fresh_matrix [0, 1, 2] [1, 3, 5] 3 = Inl AssertionFailed \<and>
   (\<exists>A. polyfit example_solve example_fresh_matrix [0, 1, 2] [1, 3, 5] 2 =
           Inr (example_solve A [1, 3, 5]) \<and>
      length A = 3 \<and> length (A ! 2) = 3 \<and> A ! 2 ! 0 = 1 \<and> A ! 2 ! 1 = 2 \<and> A ! 2 ! 2 = 4)"
proof -
  note c0 = C9_polyfit [of "[0, 1, 2]" "[1, 3, 5]" 0 example_solve example_fresh_matrix]
  note c3 = C9_polyfit [of "[0, 1, 2]" "[1, 3, 5]" 3 example_solve example_fresh_matrix]
  note c2 = C9_polyfit [of "[0, 1, 2]" "[1, 3, 5]" 2 example_solve example_fresh_matrix]
  from c0 have f0: "polyfit example_solve example_fresh_matrix [0, 1, 2] [1, 3, 5] 0 =
      Inl AssertionFailed"
    by simp
  from c3 have f3: "polyfit example_solve example_fresh_matrix [0, 1, 2] [1, 3, 5] 3 =
      Inl AssertionFailed"
    by simp
  from c2 obtain A where a: "polyfit example_solve example_fresh_matrix [0, 1, 2] [1, 3, 5] 2 =
           Inr (example_solve A [1, 3, 5])"
    and l: "length A = length [0, 1, 2 :: real]"
    and e: "\<forall>j < length [0, 1, 2 :: real]. length (A ! j) = nat 2 + 1 \<and>
            (\<forall>i \<le> nat 2. A ! j ! i = [0, 1, 2] ! j ^ i)"
    by auto
  from e have "length (A ! 2) = 3 \<and> A ! 2 ! 0 = 1 \<and> A ! 2 ! 1 = 2 \<and> A ! 2 ! 2 = 4"
    by simp
  with a l f0 f3 show ?thesis by auto
qed

end
